theory Spec2Isabelle
  imports Main "HOL-Library.AList" "HOL-Library.Sublist"
begin

section \<open>Values of the Python program\<close>

text \<open>
  The two scripts \<^verbatim>\<open>fetch_leads.py\<close> and \<^verbatim>\<open>update_lead_status.py\<close> handle
  three kinds of values: text, the environment's optional strings, and whatever
  \<^verbatim>\<open>response.json()\<close> returns. Text is a \<^typ>\<open>string\<close> holding the UTF-8 encoding
  of the Python \<^verbatim>\<open>str\<close>: an ASCII character is one \<^typ>\<open>char\<close>, any other code
  point is the two to four of its encoding. A parsed JSON document is a \<open>json\<close> value: Python's \<^verbatim>\<open>None\<close>
  is \<open>JNull\<close>, a \<^verbatim>\<open>dict\<close> is an association list in insertion order whose keys
  are distinct (as the parser produces it), and numbers are integers.
\<close>

datatype json =
    JNull
  | JBool bool
  | JInt int
  | JStr string
  | JList "json list"
  | JObj "(string \<times> json) list"

text \<open>Python truth value testing, as used by \<^verbatim>\<open>not x\<close>, \<^verbatim>\<open>x and y\<close>, \<^verbatim>\<open>all\<close>.\<close>

fun truthy :: "json \<Rightarrow> bool" where
  "truthy JNull = False"
| "truthy (JBool b) = b"
| "truthy (JInt n) = (n \<noteq> 0)"
| "truthy (JStr s) = (s \<noteq> [])"
| "truthy (JList xs) = (xs \<noteq> [])"
| "truthy (JObj kvs) = (kvs \<noteq> [])"

text \<open>\<^verbatim>\<open>os.getenv\<close> gives \<^verbatim>\<open>None\<close> or a string; both \<^verbatim>\<open>None\<close> and \<^verbatim>\<open>""\<close> are false.\<close>

definition truthy_opt :: "string option \<Rightarrow> bool" where
  "truthy_opt v = (case v of None \<Rightarrow> False | Some s \<Rightarrow> s \<noteq> [])"

definition isinstance_list :: "json \<Rightarrow> bool" where
  "isinstance_list v = (case v of JList _ \<Rightarrow> True | _ \<Rightarrow> False)"

subsection \<open>\<^verbatim>\<open>str.lower\<close> and \<^verbatim>\<open>str.strip\<close>\<close>

text \<open>
  \<open>lower\<close> lower-cases the ASCII letters. \<^verbatim>\<open>str.lower\<close> lower-cases the letters
  outside ASCII as well, and none of them becomes \<open>y\<close>, \<open>e\<close> or \<open>s\<close>: the lowered
  text is \<open>yes\<close> for the same texts, which is all the scripts ask of it.
\<close>

definition lower_char :: "char \<Rightarrow> char" where
  "lower_char c =
     (case map_of (zip ''ABCDEFGHIJKLMNOPQRSTUVWXYZ'' ''abcdefghijklmnopqrstuvwxyz'') c of
        None \<Rightarrow> c
      | Some d \<Rightarrow> d)"

definition lower :: "string \<Rightarrow> string" where
  "lower s = map lower_char s"

text \<open>
  The code points that \<^verbatim>\<open>str.strip\<close> removes are those for which
  \<^verbatim>\<open>str.isspace\<close> holds, each given here by its UTF-8 encoding: U+0009 to U+000D,
  U+001C to U+001F, U+0020, U+0085, U+00A0, U+1680, U+2000 to U+200A, U+2028, U+2029,
  U+202F, U+205F and U+3000.
\<close>

definition whitespace :: "string list" where
  "whitespace =
     [[CHR 0x09], [CHR 0x0A], [CHR 0x0B], [CHR 0x0C], [CHR 0x0D],
      [CHR 0x1C], [CHR 0x1D], [CHR 0x1E], [CHR 0x1F], [CHR 0x20],
      [CHR 0xC2, CHR 0x85], [CHR 0xC2, CHR 0xA0],
      [CHR 0xE1, CHR 0x9A, CHR 0x80],
      [CHR 0xE2, CHR 0x80, CHR 0x80], [CHR 0xE2, CHR 0x80, CHR 0x81],
      [CHR 0xE2, CHR 0x80, CHR 0x82], [CHR 0xE2, CHR 0x80, CHR 0x83],
      [CHR 0xE2, CHR 0x80, CHR 0x84], [CHR 0xE2, CHR 0x80, CHR 0x85],
      [CHR 0xE2, CHR 0x80, CHR 0x86], [CHR 0xE2, CHR 0x80, CHR 0x87],
      [CHR 0xE2, CHR 0x80, CHR 0x88], [CHR 0xE2, CHR 0x80, CHR 0x89],
      [CHR 0xE2, CHR 0x80, CHR 0x8A],
      [CHR 0xE2, CHR 0x80, CHR 0xA8], [CHR 0xE2, CHR 0x80, CHR 0xA9],
      [CHR 0xE2, CHR 0x80, CHR 0xAF],
      [CHR 0xE2, CHR 0x81, CHR 0x9F],
      [CHR 0xE3, CHR 0x80, CHR 0x80]]"

text \<open>
  The length of the member of \<open>ws\<close> that the text begins with, 0 when it begins with
  none. No encoding is the beginning of another, so at most one member fits.
\<close>

definition leading :: "string list \<Rightarrow> string \<Rightarrow> nat" where
  "leading ws s = (case find (\<lambda>w. prefix w s) ws of None \<Rightarrow> 0 | Some w \<Rightarrow> length w)"

fun drop_leading :: "string list \<Rightarrow> string \<Rightarrow> string" where
  "drop_leading ws [] = []"
| "drop_leading ws (c # cs) =
     (case leading ws (c # cs) of
        0 \<Rightarrow> c # cs
      | Suc n \<Rightarrow> drop_leading ws (drop n cs))"

definition lstrip :: "string \<Rightarrow> string" where
  "lstrip s = drop_leading whitespace s"

text \<open>
  From the end, the same on the reversed text with the reversed encodings: in the
  encoding of a text, an encoded code point at the end is the last code point.
\<close>

definition rstrip :: "string \<Rightarrow> string" where
  "rstrip s = rev (drop_leading (map rev whitespace) (rev s))"

definition strip :: "string \<Rightarrow> string" where
  "strip s = rstrip (lstrip s)"

section \<open>Exceptions, events and the result of a call\<close>

text \<open>
  What an HTTP server answered: the status code, the body as text, and what
  \<^verbatim>\<open>response.json()\<close> makes of the body (\<open>None\<close> when the body is not JSON).
\<close>

record response =
  status_code :: nat
  text_of :: string
  json_body :: "json option"

text \<open>
  The exceptions that the scripts raise or that the library calls they make raise.
  \<open>ValueError\<close> carries the message of a \<^verbatim>\<open>raise ValueError(...)\<close> of the scripts.
  \<open>HTTPError\<close> is what \<^verbatim>\<open>raise_for_status\<close> raises, \<open>ConnectionError\<close> stands for a
  request that got no response, \<open>JSONDecodeError\<close> is the one of \<^verbatim>\<open>requests\<close>
  (a \<^verbatim>\<open>RequestException\<close> and a \<^verbatim>\<open>ValueError\<close> at once), \<open>FieldsError\<close> is the
  \<^verbatim>\<open>ValueError\<close> of \<^verbatim>\<open>csv.DictWriter\<close> for a row with a key outside the field names.
\<close>

datatype exn =
    ValueError string
  | FieldsError
  | JSONDecodeError
  | HTTPError response
  | ConnectionError
  | AttributeError
  | TypeError
  | KeyError
  | FileNotFoundError
  | OSError
  | EOFError
  | IndexError

fun is_ValueError :: "exn \<Rightarrow> bool" where
  "is_ValueError (ValueError _) = True"
| "is_ValueError FieldsError = True"
| "is_ValueError JSONDecodeError = True"
| "is_ValueError _ = False"

fun is_RequestException :: "exn \<Rightarrow> bool" where
  "is_RequestException (HTTPError _) = True"
| "is_RequestException ConnectionError = True"
| "is_RequestException JSONDecodeError = True"
| "is_RequestException _ = False"

fun is_HTTPError :: "exn \<Rightarrow> bool" where
  "is_HTTPError (HTTPError _) = True"
| "is_HTTPError _ = False"

fun is_FileNotFoundError :: "exn \<Rightarrow> bool" where
  "is_FileNotFoundError FileNotFoundError = True"
| "is_FileNotFoundError _ = False"

text \<open>\<^verbatim>\<open>IOError\<close> is \<^verbatim>\<open>OSError\<close>; \<^verbatim>\<open>RequestException\<close> derives from it.\<close>

fun is_IOError :: "exn \<Rightarrow> bool" where
  "is_IOError OSError = True"
| "is_IOError FileNotFoundError = True"
| "is_IOError e = is_RequestException e"

text \<open>
  A formatted message is a list of pieces: literal text, \<^verbatim>\<open>str(v)\<close> of a value, a
  number, \<^verbatim>\<open>str(e)\<close> of an exception, \<^verbatim>\<open>json.dumps(v, indent=n)\<close>.
\<close>

datatype piece =
    L string
  | S json
  | N nat
  | X exn
  | Dumps json nat

datatype level = INFO | WARNING | ERROR

text \<open>
  Everything a script does to the outside world, in the order it does it. The three
  \<open>Http\<close> events are the calls \<^verbatim>\<open>requests.post\<close>, \<^verbatim>\<open>requests.get\<close> and
  \<^verbatim>\<open>requests.put\<close>; the \<open>File\<close> events are what reaches an output file.
\<close>

datatype event =
    Log level "piece list"
  | Print "piece list"
  | Input "piece list"
  | HttpPost string "(string \<times> string option) list"
  | HttpGet string "(string \<times> piece list) list" "(string \<times> piece list) list"
  | HttpPut string "(string \<times> piece list) list" json
  | MakeDirs string
  | FileOpen string
  | FileCsvHeader string "string list"
  | FileCsvRow string "json list"
  | FileJsonDump string json nat

fun is_http :: "event \<Rightarrow> bool" where
  "is_http (HttpPost _ _) = True"
| "is_http (HttpGet _ _ _) = True"
| "is_http (HttpPut _ _ _) = True"
| "is_http _ = False"

definition http_calls :: "event list \<Rightarrow> event list" where
  "http_calls tr = filter is_http tr"

fun is_file_write :: "event \<Rightarrow> bool" where
  "is_file_write (FileOpen _) = True"
| "is_file_write (FileCsvHeader _ _) = True"
| "is_file_write (FileCsvRow _ _) = True"
| "is_file_write (FileJsonDump _ _ _) = True"
| "is_file_write _ = False"

definition file_writes :: "event list \<Rightarrow> event list" where
  "file_writes tr = filter is_file_write tr"

fun is_print :: "event \<Rightarrow> bool" where
  "is_print (Print _) = True"
| "is_print _ = False"

fun is_input :: "event \<Rightarrow> bool" where
  "is_input (Input _) = True"
| "is_input _ = False"

text \<open>
  A call yields the events it caused and either the exception it raised (\<open>Inl\<close>) or
  the value it returned (\<open>Inr\<close>).
\<close>

type_synonym 'a io = "event list \<times> (exn + 'a)"

definition ret :: "'a \<Rightarrow> 'a io" where
  "ret x = ([], Inr x)"

definition raise :: "exn \<Rightarrow> 'a io" where
  "raise e = ([], Inl e)"

definition emit :: "event \<Rightarrow> unit io" where
  "emit ev = ([ev], Inr ())"

definition io_of :: "exn + 'a \<Rightarrow> 'a io" where
  "io_of r = ([], r)"

definition io_bind :: "'a io \<Rightarrow> ('a \<Rightarrow> 'b io) \<Rightarrow> 'b io" where
  "io_bind m f =
     (case snd m of
        Inl e \<Rightarrow> (fst m, Inl e)
      | Inr x \<Rightarrow> (fst m @ fst (f x), snd (f x)))"

definition io_then :: "unit io \<Rightarrow> 'b io \<Rightarrow> 'b io" where
  "io_then m k = io_bind m (\<lambda>_. k)"

text \<open>\<^verbatim>\<open>try: m except ... as e: h e\<close>, with a handler for every exception.\<close>

definition io_catch :: "'a io \<Rightarrow> (exn \<Rightarrow> 'a io) \<Rightarrow> 'a io" where
  "io_catch m h =
     (case snd m of
        Inl e \<Rightarrow> (fst m @ fst (h e), snd (h e))
      | Inr x \<Rightarrow> (fst m, Inr x))"

section \<open>Library calls\<close>

text \<open>\<^verbatim>\<open>d.get(key, default)\<close>: only a \<^verbatim>\<open>dict\<close> has the method.\<close>

definition py_get :: "json \<Rightarrow> string \<Rightarrow> json \<Rightarrow> exn + json" where
  "py_get d k dflt =
     (case d of
        JObj kvs \<Rightarrow> (case map_of kvs k of None \<Rightarrow> Inr dflt | Some v \<Rightarrow> Inr v)
      | _ \<Rightarrow> Inl AttributeError)"

text \<open>
  \<^verbatim>\<open>key in d\<close> for a string key: membership of the keys of a \<^verbatim>\<open>dict\<close>, of the
  elements of a \<^verbatim>\<open>list\<close>, substring test on a \<^verbatim>\<open>str\<close>, and a \<^verbatim>\<open>TypeError\<close> on
  anything else.
\<close>

definition py_in :: "string \<Rightarrow> json \<Rightarrow> exn + bool" where
  "py_in k d =
     (case d of
        JObj kvs \<Rightarrow> Inr (k \<in> set (map fst kvs))
      | JList xs \<Rightarrow> Inr (JStr k \<in> set xs)
      | JStr s \<Rightarrow> Inr (sublist k s)
      | _ \<Rightarrow> Inl TypeError)"

text \<open>\<^verbatim>\<open>d[key]\<close> for a string key.\<close>

definition py_index :: "json \<Rightarrow> string \<Rightarrow> exn + json" where
  "py_index d k =
     (case d of
        JObj kvs \<Rightarrow> (case map_of kvs k of None \<Rightarrow> Inl KeyError | Some v \<Rightarrow> Inr v)
      | _ \<Rightarrow> Inl TypeError)"

text \<open>
  What the server does is a parameter of every request: it answers with a response,
  or the request fails without one. The call itself is an event in both cases.
\<close>

datatype http_result = NoResponse | Response response

definition requests_result :: "http_result \<Rightarrow> response io" where
  "requests_result srv =
     (case srv of NoResponse \<Rightarrow> raise ConnectionError | Response r \<Rightarrow> ret r)"

definition requests_post ::
  "string \<Rightarrow> (string \<times> string option) list \<Rightarrow> http_result \<Rightarrow> response io" where
  "requests_post url payload srv = io_then (emit (HttpPost url payload)) (requests_result srv)"

definition requests_get ::
  "string \<Rightarrow> (string \<times> piece list) list \<Rightarrow> (string \<times> piece list) list \<Rightarrow>
   http_result \<Rightarrow> response io" where
  "requests_get url headers params srv =
     io_then (emit (HttpGet url headers params)) (requests_result srv)"

definition requests_put ::
  "string \<Rightarrow> (string \<times> piece list) list \<Rightarrow> json \<Rightarrow> http_result \<Rightarrow> response io" where
  "requests_put url headers body srv =
     io_then (emit (HttpPut url headers body)) (requests_result srv)"

text \<open>\<^verbatim>\<open>raise_for_status\<close> raises for the status codes 400 to 599 and for no other.\<close>

definition raise_for_status :: "response \<Rightarrow> unit io" where
  "raise_for_status r =
     (if 400 \<le> status_code r \<and> status_code r < 600 then raise (HTTPError r) else ret ())"

definition response_json :: "response \<Rightarrow> json io" where
  "response_json r =
     (case json_body r of None \<Rightarrow> raise JSONDecodeError | Some v \<Rightarrow> ret v)"

section \<open>Configuration\<close>

record environ =
  CLIENT_ID :: "string option"
  CLIENT_SECRET :: "string option"
  REFRESH_TOKEN :: "string option"

definition MODULE_API_NAME :: string where
  "MODULE_API_NAME = ''Leads''"

definition FIELD_TO_UPDATE :: string where
  "FIELD_TO_UPDATE = ''Lead_Status''"

definition NEW_STATUS_VALUE :: string where
  "NEW_STATUS_VALUE = ''Junk Lead''"

definition INPUT_FILE :: string where
  "INPUT_FILE = ''input_data/junk_lead_ids.txt''"

definition ZOHO_API_DOMAIN :: string where
  "ZOHO_API_DOMAIN = ''https://www.zohoapis.com''"

definition ZOHO_ACCOUNTS_URL :: string where
  "ZOHO_ACCOUNTS_URL = ''https://accounts.zoho.com/oauth/v2/token''"

definition CUSTOM_VIEW_ID :: string where
  "CUSTOM_VIEW_ID = ''1649349000008182385''"

definition RECORDS_PER_PAGE :: nat where
  "RECORDS_PER_PAGE = 200"

section \<open>Token exchange\<close>

text \<open>
  \<^verbatim>\<open>get_access_token\<close> is the same function in both scripts. The handler's
  \<^verbatim>\<open>response.text if 'response' in locals() else "No response"\<close> depends on whether
  \<^verbatim>\<open>requests.post\<close> returned, which is what the server parameter says.
\<close>

definition response_text_or_none :: "http_result \<Rightarrow> piece" where
  "response_text_or_none srv =
     (case srv of NoResponse \<Rightarrow> L ''No response'' | Response r \<Rightarrow> L (text_of r))"

definition token_payload :: "environ \<Rightarrow> (string \<times> string option) list" where
  "token_payload ev =
     [(''refresh_token'', REFRESH_TOKEN ev),
      (''client_id'', CLIENT_ID ev),
      (''client_secret'', CLIENT_SECRET ev),
      (''grant_type'', Some ''refresh_token'')]"

definition get_access_token :: "environ \<Rightarrow> http_result \<Rightarrow> json io" where
  "get_access_token ev srv =
     (if \<not> list_all truthy_opt [CLIENT_ID ev, CLIENT_SECRET ev, REFRESH_TOKEN ev] then
        io_then (emit (Log ERROR [L ''Missing one or more OAuth credentials in environment variables.'']))
          (raise (ValueError ''Zoho OAuth credentials (CLIENT_ID, CLIENT_SECRET, REFRESH_TOKEN) not found in .env file.''))
      else
        io_catch
          (io_then (emit (Log INFO [L ''Requesting new access token...'']))
          (io_bind (requests_post ZOHO_ACCOUNTS_URL (token_payload ev) srv) (\<lambda>response.
           io_then (raise_for_status response)
          (io_bind (response_json response) (\<lambda>token_data.
           io_bind (io_of (py_get token_data ''access_token'' JNull)) (\<lambda>access_token.
             if \<not> truthy access_token then
               io_then (emit (Log ERROR [L ''Failed to retrieve access token. Response: '', S token_data]))
                 (raise (ValueError ''Could not get access token from Zoho response.''))
             else
               io_then (emit (Log INFO [L ''Successfully obtained new access token.'']))
                 (ret access_token)))))))
          (\<lambda>e. if is_RequestException e then
                 io_then (emit (Log ERROR [L ''Error requesting access token: '', X e]))
                (io_then (emit (Log ERROR [L ''Response body: '', response_text_or_none srv]))
                 (raise e))
               else
                 io_then (emit (Log ERROR [L ''An unexpected error occurred during token refresh: '', X e]))
                 (raise e)))"

section \<open>The update script\<close>

text \<open>The apostrophe and the line feed, which a string literal cannot end with.\<close>

definition apostrophe :: string where
  "apostrophe = [CHR 0x27]"

definition newline :: string where
  "newline = [CHR 0x0A]"

subsection \<open>\<^verbatim>\<open>read_lead_ids_from_file\<close>\<close>

text \<open>
  What opening and reading the input file gives: the lines as iterating over the file
  yields them (each with its line terminator, if it has one), or a failure.
\<close>

datatype file_result = FileMissing | FileUnreadable | FileLines "string list"

definition open_read :: "file_result \<Rightarrow> string list io" where
  "open_read fr =
     (case fr of
        FileMissing \<Rightarrow> raise FileNotFoundError
      | FileUnreadable \<Rightarrow> raise OSError
      | FileLines ls \<Rightarrow> ret ls)"

text \<open>The loop over the lines, with the list \<^verbatim>\<open>lead_ids\<close> it appends to.\<close>

fun collect_ids :: "string list \<Rightarrow> string list \<Rightarrow> string list" where
  "collect_ids lead_ids [] = lead_ids"
| "collect_ids lead_ids (line # rest) =
     (let lead_id = strip line
      in if lead_id \<noteq> [] then collect_ids (lead_ids @ [lead_id]) rest
         else collect_ids lead_ids rest)"

definition read_lead_ids_from_file :: "string \<Rightarrow> file_result \<Rightarrow> string list io" where
  "read_lead_ids_from_file filename fr =
     io_catch
       (io_bind (open_read fr) (\<lambda>ls.
          let lead_ids = collect_ids [] ls
          in io_then (emit (Log INFO [L ''Read '', N (length lead_ids), L '' Lead IDs from '', L filename]))
               (ret lead_ids)))
       (\<lambda>e. if is_FileNotFoundError e then
              io_then (emit (Log ERROR [L ''Input file '', L apostrophe, L filename, L apostrophe, L '' not found.'']))
                (raise e)
            else
              io_then (emit (Log ERROR [L ''Error reading file '', L filename, L '': '', X e]))
                (raise e))"

subsection \<open>\<^verbatim>\<open>update_lead_statuses\<close>\<close>

definition update_item :: "string \<Rightarrow> string \<Rightarrow> string \<Rightarrow> json" where
  "update_item field_api_name new_value lead_id =
     JObj (AList.update field_api_name (JStr new_value) [(''id'', JStr lead_id)])"

definition auth_headers :: "json \<Rightarrow> (string \<times> piece list) list" where
  "auth_headers access_token = [(''Authorization'', [L ''Zoho-oauthtoken '', S access_token])]"

definition print_error_details :: "response \<Rightarrow> unit io" where
  "print_error_details r =
     (case json_body r of
        Some error_details \<Rightarrow>
          emit (Print [L ''API Error Details:'', L newline, Dumps error_details 2])
      | None \<Rightarrow>
          emit (Print [L ''Could not parse error response as JSON. Raw response:'', L newline,
                       L (text_of r)]))"

definition update_lead_statuses ::
  "http_result \<Rightarrow> json \<Rightarrow> string \<Rightarrow> string list \<Rightarrow> string \<Rightarrow> string \<Rightarrow> json io" where
  "update_lead_statuses srv access_token module_name lead_ids field_api_name new_value =
     (let api_url = ZOHO_API_DOMAIN @ ''/crm/v8/'' @ module_name;
          headers = auth_headers access_token;
          data_payload = map (update_item field_api_name new_value) lead_ids;
          request_body = JObj [(''data'', JList data_payload)]
      in io_catch
           (io_then (emit (Log INFO [L ''Sending update request for '', N (length lead_ids), L '' leads...'']))
           (io_bind (requests_put api_url headers request_body srv) (\<lambda>response.
            io_then (raise_for_status response)
           (io_then (emit (Log INFO [L ''Update request sent. Status code: '', N (status_code response)]))
            (response_json response)))))
           (\<lambda>e. case e of
                  HTTPError r \<Rightarrow>
                    io_then (emit (Log ERROR [L ''HTTP Error during lead update: '', X e]))
                   (io_then (emit (Log ERROR [L ''Response Status Code: '', N (status_code r)]))
                   (io_then (emit (Log ERROR [L ''Response Body: '', L (text_of r)]))
                   (io_then (print_error_details r)
                    (raise e))))
                | _ \<Rightarrow>
                    if is_RequestException e then
                      io_then (emit (Log ERROR [L ''Network or Request Error during lead update: '', X e]))
                        (raise e)
                    else
                      io_then (emit (Log ERROR [L ''An unexpected error occurred during lead update: '', X e]))
                        (raise e)))"

subsection \<open>\<^verbatim>\<open>process_update_response\<close>\<close>

text \<open>
  The guard \<^verbatim>\<open>not response_data or 'data' not in response_data or not
  isinstance(response_data['data'], list)\<close>, evaluated from left to right; a later
  operand is evaluated only when the earlier ones are false, and may raise.
\<close>

definition unexpected_format :: "json \<Rightarrow> exn + bool" where
  "unexpected_format response_data =
     (if \<not> truthy response_data then Inr True
      else case py_in ''data'' response_data of
             Inl e \<Rightarrow> Inl e
           | Inr False \<Rightarrow> Inr True
           | Inr True \<Rightarrow>
               (case py_index response_data ''data'' of
                  Inl e \<Rightarrow> Inl e
                | Inr d \<Rightarrow> Inr (\<not> isinstance_list d)))"

text \<open>The body of the loop over the results.\<close>

definition process_result :: "json \<Rightarrow> unit io" where
  "process_result result =
     io_bind (io_of (py_get result ''status'' JNull)) (\<lambda>status.
     io_bind (io_of (py_get result ''code'' JNull)) (\<lambda>code.
     io_bind (io_of (py_get result ''message'' JNull)) (\<lambda>message.
     io_bind (io_of (py_get result ''details'' (JObj []))) (\<lambda>details.
     io_bind (io_of (py_get details ''id'' (JStr ''N/A''))) (\<lambda>record_id.
       if status = JStr ''success'' \<and> code = JStr ''SUCCESS'' then
         io_then (emit (Print [L ''Lead ID '', S record_id, L '': Successfully updated to '',
                               L apostrophe, L NEW_STATUS_VALUE, L apostrophe]))
           (emit (Log INFO [L ''Successfully updated Lead ID '', S record_id]))
       else
         io_then (emit (Print [L ''Lead ID '', S record_id, L '': Failed to update.'']))
        (io_then (emit (Print [L ''  Status: '', S status]))
        (io_then (emit (Print [L ''  Code: '', S code]))
        (io_then (emit (Print [L ''  Message: '', S message]))
        (io_then (emit (Print [L ''  Details: '', S details]))
         (emit (Log ERROR [L ''Failed to update Lead ID '', S record_id, L ''. Status: '', S status,
                           L '', Code: '', S code, L '', Message: '', S message,
                           L '', Details: '', S details])))))))))))"

fun process_results :: "json list \<Rightarrow> unit io" where
  "process_results [] = ret ()"
| "process_results (result # rest) = io_then (process_result result) (process_results rest)"

definition for_each_result :: "json \<Rightarrow> unit io" where
  "for_each_result results =
     (case results of JList items \<Rightarrow> process_results items | _ \<Rightarrow> raise TypeError)"

definition process_update_response :: "json \<Rightarrow> unit io" where
  "process_update_response response_data =
     io_bind (io_of (unexpected_format response_data)) (\<lambda>unexpected.
       if unexpected then
         io_then (emit (Log WARNING [L ''Unexpected response format from Zoho update API.'']))
        (io_then (emit (Print [L ''Warning: Unexpected response format received from Zoho.'']))
         (emit (Print [L ''Raw Response:'', L newline, Dumps response_data 2])))
       else
         io_bind (io_of (py_index response_data ''data'')) (\<lambda>results.
         io_then (emit (Print [L newline, L ''--- Update Results ---'']))
        (io_then (for_each_result results)
         (emit (Print [L ''--- End of Results ---''])))))"

subsection \<open>\<^verbatim>\<open>main\<close> of the update script\<close>

text \<open>What the operator types at the prompt, or the end of the input.\<close>

datatype console = Answer string | EndOfInput

definition py_input :: "piece list \<Rightarrow> console \<Rightarrow> string io" where
  "py_input prompt c =
     io_then (emit (Input prompt))
       (case c of EndOfInput \<Rightarrow> raise EOFError | Answer a \<Rightarrow> ret a)"

text \<open>Everything outside the script that a run of it depends on.\<close>

record update_world =
  u_environ :: environ
  u_input_file :: file_result
  u_console :: console
  u_token_endpoint :: http_result
  u_crm_endpoint :: http_result

definition update_main :: "update_world \<Rightarrow> unit io" where
  "update_main w =
     io_catch
       (io_bind (read_lead_ids_from_file INPUT_FILE (u_input_file w)) (\<lambda>lead_ids_to_update.
          if lead_ids_to_update = [] then
            io_then (emit (Print [L ''No Lead IDs found in '', L INPUT_FILE, L ''. Exiting.'']))
              (emit (Log WARNING [L ''No Lead IDs found in '', L INPUT_FILE, L ''.'']))
          else
            io_then (emit (Print [L ''Found '', N (length lead_ids_to_update),
                                  L '' Lead IDs to update in '', L INPUT_FILE, L ''.'']))
           (io_bind (py_input [L ''Proceed with updating '', L FIELD_TO_UPDATE, L '' to '',
                               L apostrophe, L NEW_STATUS_VALUE, L apostrophe,
                               L '' for these leads? (yes/no): ''] (u_console w)) (\<lambda>answer.
              let confirm = lower answer
              in if confirm \<noteq> ''yes'' then
                   emit (Print [L ''Operation cancelled by user.''])
                 else
                   io_bind (get_access_token (u_environ w) (u_token_endpoint w)) (\<lambda>access_token.
                   io_bind (update_lead_statuses (u_crm_endpoint w) access_token MODULE_API_NAME
                              lead_ids_to_update FIELD_TO_UPDATE NEW_STATUS_VALUE) (\<lambda>update_response.
                   process_update_response update_response))))))
       (\<lambda>e. if is_ValueError e then
              emit (Print [L ''Configuration Error: '', X e])
            else if is_FileNotFoundError e then
              emit (Print [L ''Error: Input file '', L apostrophe, L INPUT_FILE, L apostrophe,
                           L '' not found. Please create it with one Lead ID per line.''])
            else if is_RequestException e then
              emit (Print [L ''API Request Error: '', X e])
            else
              io_then (emit (Print [L ''An unexpected error occurred: '', X e]))
                (emit (Log ERROR [L ''Unexpected error in main function.''])))"

section \<open>The export script\<close>

subsection \<open>\<^verbatim>\<open>fetch_leads_from_custom_view\<close>\<close>

definition response_status_or_none :: "http_result \<Rightarrow> piece" where
  "response_status_or_none srv =
     (case srv of NoResponse \<Rightarrow> L ''No response'' | Response r \<Rightarrow> N (status_code r))"

definition fetch_leads_from_custom_view ::
  "http_result \<Rightarrow> json \<Rightarrow> string \<Rightarrow> string \<Rightarrow> nat \<Rightarrow> json io" where
  "fetch_leads_from_custom_view srv access_token module_name cvid per_page =
     (let api_url = ZOHO_API_DOMAIN @ ''/crm/v8/'' @ module_name;
          headers = auth_headers access_token;
          params = [(''cvid'', [L cvid]), (''per_page'', [N per_page]), (''page'', [N 1])]
      in io_catch
           (io_then (emit (Log INFO [L ''Fetching leads from module '', L apostrophe, L module_name,
                                     L apostrophe, L '' with custom view ID '', L apostrophe, L cvid,
                                     L apostrophe, L ''...'']))
           (io_bind (requests_get api_url headers params srv) (\<lambda>response.
            io_then (raise_for_status response)
           (io_then (emit (Log INFO [L ''Successfully fetched leads. Status code: '',
                                     N (status_code response)]))
            (response_json response)))))
           (\<lambda>e. if is_RequestException e then
                  io_then (emit (Log ERROR [L ''Error fetching leads: '', X e]))
                 (io_then (emit (Log ERROR [L ''Response status code: '', response_status_or_none srv]))
                 (io_then (emit (Log ERROR [L ''Response body: '', response_text_or_none srv]))
                  (raise e)))
                else raise e))"

subsection \<open>Writing the output files\<close>

text \<open>
  An output file may fail: \<open>Some i\<close> says that the \<open>i\<close>-th operation on the file
  (the \<^verbatim>\<open>open\<close> is operation 0, each write is one more) raises an \<^verbatim>\<open>IOError\<close>
  instead of taking effect, \<open>None\<close> that no operation fails.
\<close>

definition file_op :: "nat option \<Rightarrow> nat \<Rightarrow> event \<Rightarrow> unit io" where
  "file_op fault i ev = (if fault = Some i then raise OSError else emit ev)"

text \<open>
  \<^verbatim>\<open>csv.DictWriter\<close> with its defaults \<^verbatim>\<open>restval=''\<close> and
  \<^verbatim>\<open>extrasaction='raise'\<close>: a row is its values under the field names, the empty
  string where the row lacks the key, and a row with a key that is no field name is an
  error.
\<close>

definition dict_to_list :: "string list \<Rightarrow> json \<Rightarrow> exn + json list" where
  "dict_to_list fieldnames rowdict =
     (case rowdict of
        JObj kvs \<Rightarrow>
          if list_ex (\<lambda>k. k \<notin> set fieldnames) (map fst kvs) then Inl FieldsError
          else Inr (map (\<lambda>key. case map_of kvs key of None \<Rightarrow> JStr [] | Some v \<Rightarrow> v) fieldnames)
      | _ \<Rightarrow> Inl AttributeError)"

fun writerows :: "string \<Rightarrow> string list \<Rightarrow> nat option \<Rightarrow> nat \<Rightarrow> json list \<Rightarrow> unit io" where
  "writerows path fieldnames fault i [] = ret ()"
| "writerows path fieldnames fault i (rowdict # rest) =
     io_bind (io_of (dict_to_list fieldnames rowdict)) (\<lambda>cells.
     io_then (file_op fault i (FileCsvRow path cells))
     (writerows path fieldnames fault (Suc i) rest))"

text \<open>\<^verbatim>\<open>list(leads[0].keys())\<close>.\<close>

definition first_keys :: "json list \<Rightarrow> exn + string list" where
  "first_keys leads =
     (case leads of
        [] \<Rightarrow> Inl IndexError
      | JObj kvs # _ \<Rightarrow> Inr (map fst kvs)
      | _ # _ \<Rightarrow> Inl AttributeError)"

definition write_csv :: "string \<Rightarrow> string list \<Rightarrow> nat option \<Rightarrow> json list \<Rightarrow> unit io" where
  "write_csv csv_filename headers fault leads =
     io_catch
       (io_then (file_op fault 0 (FileOpen csv_filename))
       (io_then (file_op fault 1 (FileCsvHeader csv_filename headers))
       (io_then (writerows csv_filename headers fault 2 leads)
       (io_then (emit (Log INFO [L ''Successfully wrote '', N (length leads), L '' leads to '',
                                 L csv_filename]))
        (emit (Print [L ''Successfully wrote '', N (length leads), L '' leads to '',
                      L csv_filename]))))))
       (\<lambda>e. if is_IOError e then
              io_then (emit (Log ERROR [L ''Error writing to CSV file '', L csv_filename, L '': '', X e]))
                (emit (Print [L ''Error writing to CSV file: '', X e]))
            else
              io_then (emit (Log ERROR [L ''An unexpected error occurred during CSV writing: '', X e]))
                (emit (Print [L ''An unexpected error occurred during CSV writing: '', X e])))"

definition write_json :: "string \<Rightarrow> nat option \<Rightarrow> json list \<Rightarrow> unit io" where
  "write_json json_filename fault leads =
     io_catch
       (io_then (file_op fault 0 (FileOpen json_filename))
       (io_then (file_op fault 1 (FileJsonDump json_filename (JList leads) 4))
       (io_then (emit (Log INFO [L ''Successfully wrote '', N (length leads), L '' leads to '',
                                 L json_filename]))
        (emit (Print [L ''Successfully wrote '', N (length leads), L '' leads to '',
                      L json_filename])))))
       (\<lambda>e. if is_IOError e then
              io_then (emit (Log ERROR [L ''Error writing to JSON file '', L json_filename, L '': '', X e]))
                (emit (Print [L ''Error writing to JSON file: '', X e]))
            else
              io_then (emit (Log ERROR [L ''An unexpected error occurred during JSON writing: '', X e]))
                (emit (Print [L ''An unexpected error occurred during JSON writing: '', X e])))"

text \<open>The first branch of \<^verbatim>\<open>main\<close>, entered with \<^verbatim>\<open>leads_data['data']\<close>.\<close>

definition write_leads ::
  "string \<Rightarrow> string \<Rightarrow> nat option \<Rightarrow> nat option \<Rightarrow> json \<Rightarrow> unit io" where
  "write_leads output_folder timestamp csv_fault json_fault data =
     (case data of
        JList leads \<Rightarrow>
          io_then (emit (Log INFO [L ''Successfully fetched '', N (length leads), L '' leads.'']))
            (let csv_filename = output_folder @ ''/'' @ ''zoho_leads_'' @ timestamp @ ''.csv''
             in io_bind (io_of (first_keys leads)) (\<lambda>headers.
                io_then (write_csv csv_filename headers csv_fault leads)
                  (let json_filename = output_folder @ ''/'' @ ''zoho_leads_'' @ timestamp @ ''.json''
                   in write_json json_filename json_fault leads)))
      | _ \<Rightarrow> raise TypeError)"

subsection \<open>\<^verbatim>\<open>main\<close> of the export script\<close>

text \<open>
  The condition \<^verbatim>\<open>leads_data and 'data' in leads_data and
  isinstance(leads_data['data'], list) and leads_data['data']\<close>, from left to right.
\<close>

definition has_leads :: "json \<Rightarrow> exn + bool" where
  "has_leads leads_data =
     (if \<not> truthy leads_data then Inr False
      else case py_in ''data'' leads_data of
             Inl e \<Rightarrow> Inl e
           | Inr False \<Rightarrow> Inr False
           | Inr True \<Rightarrow>
               (case py_index leads_data ''data'' of
                  Inl e \<Rightarrow> Inl e
                | Inr d \<Rightarrow> Inr (isinstance_list d \<and> truthy d)))"

definition os_makedirs :: "string \<Rightarrow> bool \<Rightarrow> unit io" where
  "os_makedirs folder fails = (if fails then raise OSError else emit (MakeDirs folder))"

text \<open>
  Everything outside the script that a run of it depends on; \<open>f_timestamp\<close> is
  \<^verbatim>\<open>datetime.now().strftime("%Y%m%d_%H%M%S")\<close>.
\<close>

record export_world =
  f_environ :: environ
  f_folder_exists :: bool
  f_makedirs_fails :: bool
  f_token_endpoint :: http_result
  f_crm_endpoint :: http_result
  f_timestamp :: string
  f_csv_fault :: "nat option"
  f_json_fault :: "nat option"

text \<open>
  The \<^verbatim>\<open>if\<close>/\<^verbatim>\<open>elif\<close>/\<^verbatim>\<open>else\<close> of \<^verbatim>\<open>main\<close> on the parsed response
  (lines 101 to 152).
\<close>

definition handle_leads_data :: "string \<Rightarrow> export_world \<Rightarrow> json \<Rightarrow> unit io" where
  "handle_leads_data output_folder w leads_data =
     io_bind (io_of (has_leads leads_data)) (\<lambda>found.
       if found then
         io_bind (io_of (py_index leads_data ''data'')) (\<lambda>data.
         write_leads output_folder (f_timestamp w) (f_csv_fault w) (f_json_fault w) data)
       else if truthy leads_data then
         io_then (emit (Log WARNING [L ''API response received, but it did not contain a list of leads in the '',
                                     L apostrophe, L ''data'', L apostrophe, L '' key.'']))
           (emit (Print [L ''API response received, but no leads found in the expected format.'']))
       else
         io_then (emit (Print [L ''No data returned from the API.'']))
           (emit (Log WARNING [L ''No data returned from the API.''])))"

definition fetch_main :: "export_world \<Rightarrow> unit io" where
  "fetch_main w =
     (let output_folder = ''output_data''
      in io_then
           (if \<not> f_folder_exists w then os_makedirs output_folder (f_makedirs_fails w) else ret ())
           (io_catch
              (io_bind (get_access_token (f_environ w) (f_token_endpoint w)) (\<lambda>access_token.
               io_bind (fetch_leads_from_custom_view (f_crm_endpoint w) access_token MODULE_API_NAME
                          CUSTOM_VIEW_ID RECORDS_PER_PAGE) (\<lambda>leads_data.
               handle_leads_data output_folder w leads_data)))
              (\<lambda>e. if is_ValueError e then
                     emit (Print [L ''Configuration Error: '', X e])
                   else if is_RequestException e then
                     emit (Print [L ''API Request Error: '', X e])
                   else
                     emit (Print [L ''An unexpected error occurred: '', X e]))))"

section \<open>Vocabulary of the specification\<close>

text \<open>
  The definitions of this section are not code of the scripts: they say, in the
  words of the specification, what the scripts are expected to do, and the theorems
  below compare the scripts with them.
\<close>

subsection \<open>Token exchange\<close>

definition is_error_status :: "response \<Rightarrow> bool" where
  "is_error_status r = (400 \<le> status_code r \<and> status_code r < 600)"

text \<open>A body without an access token: the field is missing, or its value is false.\<close>

definition lacks_access_token :: "(string \<times> json) list \<Rightarrow> bool" where
  "lacks_access_token kvs =
     (case map_of kvs ''access_token'' of None \<Rightarrow> True | Some v \<Rightarrow> \<not> truthy v)"

definition token_failure_response :: "response \<Rightarrow> bool" where
  "token_failure_response r =
     (is_error_status r \<or>
      (case json_body r of Some (JObj kvs) \<Rightarrow> lacks_access_token kvs | _ \<Rightarrow> False))"

definition token_error :: "response \<Rightarrow> exn" where
  "token_error r =
     (if is_error_status r then HTTPError r
      else ValueError ''Could not get access token from Zoho response.'')"

text \<open>What either \<^verbatim>\<open>main\<close> prints last when the token exchange has failed.\<close>

definition abort_message :: "response \<Rightarrow> event" where
  "abort_message r =
     Print [L (if is_error_status r then ''API Request Error: '' else ''Configuration Error: ''),
            X (token_error r)]"

subsection \<open>Update results\<close>

text \<open>
  An Update Result Item is an object; its \<^verbatim>\<open>details\<close>, when it has any, is an
  object too.
\<close>

definition is_result_item :: "json \<Rightarrow> bool" where
  "is_result_item item =
     (case item of
        JObj kvs \<Rightarrow>
          (case map_of kvs ''details'' of None \<Rightarrow> True | Some (JObj _) \<Rightarrow> True | Some _ \<Rightarrow> False)
      | _ \<Rightarrow> False)"

definition field :: "json \<Rightarrow> string \<Rightarrow> json \<Rightarrow> json" where
  "field item k dflt =
     (case item of
        JObj kvs \<Rightarrow> (case map_of kvs k of None \<Rightarrow> dflt | Some v \<Rightarrow> v)
      | _ \<Rightarrow> dflt)"

definition spec_success :: "json \<Rightarrow> bool" where
  "spec_success item =
     (field item ''status'' JNull = JStr ''success'' \<and> field item ''code'' JNull = JStr ''SUCCESS'')"

definition spec_record_id :: "json \<Rightarrow> json" where
  "spec_record_id item = field (field item ''details'' (JObj [])) ''id'' (JStr ''N/A'')"

definition success_report :: "json \<Rightarrow> event list" where
  "success_report record_id =
     [Print [L ''Lead ID '', S record_id, L '': Successfully updated to '',
             L apostrophe, L NEW_STATUS_VALUE, L apostrophe],
      Log INFO [L ''Successfully updated Lead ID '', S record_id]]"

definition failure_report :: "json \<Rightarrow> json \<Rightarrow> json \<Rightarrow> json \<Rightarrow> json \<Rightarrow> event list" where
  "failure_report record_id status code message details =
     [Print [L ''Lead ID '', S record_id, L '': Failed to update.''],
      Print [L ''  Status: '', S status],
      Print [L ''  Code: '', S code],
      Print [L ''  Message: '', S message],
      Print [L ''  Details: '', S details],
      Log ERROR [L ''Failed to update Lead ID '', S record_id, L ''. Status: '', S status,
                 L '', Code: '', S code, L '', Message: '', S message,
                 L '', Details: '', S details]]"

definition spec_report :: "json \<Rightarrow> event list" where
  "spec_report item =
     (if spec_success item then success_report (spec_record_id item)
      else failure_report (spec_record_id item) (field item ''status'' JNull)
             (field item ''code'' JNull) (field item ''message'' JNull)
             (field item ''details'' (JObj [])))"

subsection \<open>The update run\<close>

text \<open>The input file holds at least one ID and the operator answers yes.\<close>

definition confirmed_update :: "update_world \<Rightarrow> bool" where
  "confirmed_update w =
     ((case u_input_file w of FileLines ls \<Rightarrow> collect_ids [] ls \<noteq> [] | _ \<Rightarrow> False) \<and>
      (case u_console w of Answer a \<Rightarrow> lower a = ''yes'' | EndOfInput \<Rightarrow> False))"

subsection \<open>The export run\<close>

text \<open>
  The run receives \<open>body\<close> as the export response: the output folder is there or
  can be made, the token exchange returns, and the CRM answers with a status that is
  no error and a JSON body.
\<close>

definition receives_export :: "export_world \<Rightarrow> json \<Rightarrow> bool" where
  "receives_export w body =
     ((f_folder_exists w \<or> \<not> f_makedirs_fails w) \<and>
      (case snd (get_access_token (f_environ w) (f_token_endpoint w)) of
         Inl _ \<Rightarrow> False
       | Inr _ \<Rightarrow> True) \<and>
      (case f_crm_endpoint w of
         NoResponse \<Rightarrow> False
       | Response r \<Rightarrow> \<not> is_error_status r \<and> json_body r = Some body))"

definition csv_filename_of :: "export_world \<Rightarrow> string" where
  "csv_filename_of w = ''output_data'' @ ''/'' @ ''zoho_leads_'' @ f_timestamp w @ ''.csv''"

definition json_filename_of :: "export_world \<Rightarrow> string" where
  "json_filename_of w = ''output_data'' @ ''/'' @ ''zoho_leads_'' @ f_timestamp w @ ''.json''"

text \<open>A record that fits the header: an object all of whose keys are columns.\<close>

definition is_record_for :: "string list \<Rightarrow> json \<Rightarrow> bool" where
  "is_record_for headers r =
     (case r of JObj kvs \<Rightarrow> list_all (\<lambda>k. k \<in> set headers) (map fst kvs) | _ \<Rightarrow> False)"

text \<open>The row of a record: its value in each column, the empty string where it has none.\<close>

definition spec_row :: "string list \<Rightarrow> json \<Rightarrow> json list" where
  "spec_row headers r = map (\<lambda>k. field r k (JStr [])) headers"

definition spec_csv_file :: "string \<Rightarrow> string list \<Rightarrow> json list \<Rightarrow> event list" where
  "spec_csv_file path headers leads =
     FileOpen path # FileCsvHeader path headers
       # map (\<lambda>r. FileCsvRow path (spec_row headers r)) leads"

definition spec_json_file :: "string \<Rightarrow> json list \<Rightarrow> event list" where
  "spec_json_file path leads = [FileOpen path, FileJsonDump path (JList leads) 4]"

text \<open>What reaches a file whose \<open>i\<close>-th operation fails: the operations before it.\<close>

definition until_fault :: "nat option \<Rightarrow> event list \<Rightarrow> event list" where
  "until_fault fault ops = (case fault of None \<Rightarrow> ops | Some i \<Rightarrow> take i ops)"

text \<open>A trace that prints nothing, writes no file and asks nothing.\<close>

definition quiet :: "event list \<Rightarrow> bool" where
  "quiet tr = (\<forall>e \<in> set tr. \<not> is_print e \<and> \<not> is_file_write e \<and> \<not> is_input e)"

section \<open>Example runs\<close>

definition ex_environ :: environ where
  "ex_environ = \<lparr>CLIENT_ID = Some ''id'', CLIENT_SECRET = Some ''secret'',
                 REFRESH_TOKEN = Some ''refresh''\<rparr>"

definition ex_environ_no_secret :: environ where
  "ex_environ_no_secret = \<lparr>CLIENT_ID = Some ''id'', CLIENT_SECRET = None,
                           REFRESH_TOKEN = Some ''refresh''\<rparr>"

definition json_response :: "nat \<Rightarrow> json \<Rightarrow> response" where
  "json_response status body = \<lparr>status_code = status, text_of = [], json_body = Some body\<rparr>"

definition ex_token_response :: response where
  "ex_token_response = json_response 200 (JObj [(''access_token'', JStr ''X'')])"

text \<open>
  Lines that hold nothing but whitespace: an empty one, a space with its line feed,
  U+00A0 followed by U+0085, and U+3000 alone.
\<close>

definition ex_blank_lines :: "string list" where
  "ex_blank_lines =
     ['''', '' '' @ newline, [CHR 0xC2, CHR 0xA0, CHR 0xC2, CHR 0x85], [CHR 0xE3, CHR 0x80, CHR 0x80]]"

text \<open>
  Lines with IDs: \<open>123\<close> followed by U+00A0, U+00A0 alone, and \<open>7\<close> between U+2003
  and a line feed.
\<close>

definition ex_id_lines :: "string list" where
  "ex_id_lines =
     [''123'' @ [CHR 0xC2, CHR 0xA0], [CHR 0xC2, CHR 0xA0],
      [CHR 0xE2, CHR 0x80, CHR 0x83] @ ''7'' @ newline]"

definition ex_update_world :: "string list \<Rightarrow> string \<Rightarrow> update_world" where
  "ex_update_world ls a =
     \<lparr>u_environ = ex_environ, u_input_file = FileLines ls, u_console = Answer a,
      u_token_endpoint = Response ex_token_response, u_crm_endpoint = NoResponse\<rparr>"

definition ex_update_response :: json where
  "ex_update_response =
     JObj [(''data'', JList
       [JObj [(''status'', JStr ''success''), (''code'', JStr ''SUCCESS''),
              (''details'', JObj [(''id'', JStr ''1'')])],
        JObj [(''status'', JStr ''error''), (''code'', JStr ''INVALID_DATA''),
              (''message'', JStr ''bad''), (''details'', JObj [(''id'', JStr ''2'')])]])]"

definition ex_export_world :: "http_result \<Rightarrow> json \<Rightarrow> export_world" where
  "ex_export_world token body =
     \<lparr>f_environ = ex_environ, f_folder_exists = True, f_makedirs_fails = False,
      f_token_endpoint = token, f_crm_endpoint = Response (json_response 200 body),
      f_timestamp = ''20240101_120000'', f_csv_fault = None, f_json_fault = None\<rparr>"

definition ex_leads :: "json list" where
  "ex_leads = [JObj [(''id'', JStr ''1''), (''Last_Name'', JStr ''A'')],
               JObj [(''id'', JStr ''2''), (''Last_Name'', JStr ''B'')]]"

definition ex_uneven_leads :: "json list" where
  "ex_uneven_leads = [JObj [(''id'', JStr ''1'')],
                      JObj [(''id'', JStr ''2''), (''Email'', JStr ''b@example.com'')]]"

section \<open>Facts about the model\<close>

lemmas io_defs = ret_def raise_def emit_def io_of_def io_bind_def io_then_def io_catch_def

lemma io_then_returned:
  "snd a = Inr () \<Longrightarrow> io_then a b = (fst a @ fst b, snd b)"
  by (simp add: io_defs)

lemma map_of_None_keys: "map_of kvs k = None \<longleftrightarrow> k \<notin> set (map fst kvs)"
  by (simp add: map_of_eq_None_iff)

lemma http_calls_simps:
  "http_calls [] = []" "http_calls (tr @ tr') = http_calls tr @ http_calls tr'"
  "http_calls (Log l m # tr) = http_calls tr" "http_calls (Print m # tr) = http_calls tr"
  "http_calls (Input m # tr) = http_calls tr" "http_calls (MakeDirs d # tr) = http_calls tr"
  "http_calls (HttpPost u p # tr) = HttpPost u p # http_calls tr"
  by (simp_all add: http_calls_def)

lemma file_writes_simps:
  "file_writes [] = []" "file_writes (tr @ tr') = file_writes tr @ file_writes tr'"
  "file_writes (Log l m # tr) = file_writes tr" "file_writes (Print m # tr) = file_writes tr"
  "file_writes (MakeDirs d # tr) = file_writes tr"
  "file_writes (HttpPost u pl # tr) = file_writes tr"
  "file_writes (HttpGet u h q # tr) = file_writes tr"
  "file_writes (FileOpen p # tr) = FileOpen p # file_writes tr"
  "file_writes (FileCsvHeader p hs # tr) = FileCsvHeader p hs # file_writes tr"
  "file_writes (FileCsvRow p c # tr) = FileCsvRow p c # file_writes tr"
  "file_writes (FileJsonDump p v n # tr) = FileJsonDump p v n # file_writes tr"
  by (simp_all add: file_writes_def)

lemma file_writes_rows:
  "file_writes (map (\<lambda>r. FileCsvRow path (f r)) rows) = map (\<lambda>r. FileCsvRow path (f r)) rows"
  by (induction rows) (simp_all add: file_writes_def)

lemma quiet_simps:
  "quiet []" "quiet (Log l m # tr) = quiet tr" "quiet (HttpPost u p # tr) = quiet tr"
  "quiet (HttpGet u h q # tr) = quiet tr" "quiet (HttpPut u h b # tr) = quiet tr"
  "quiet (MakeDirs d # tr) = quiet tr"
  "quiet (tr @ tr') = (quiet tr \<and> quiet tr')"
  by (auto simp: quiet_def)

lemma quiet_filters:
  "quiet tr \<Longrightarrow> filter is_print tr = [] \<and> file_writes tr = [] \<and> filter is_input tr = []"
  by (auto simp: quiet_def file_writes_def filter_empty_conv)

subsection \<open>Reading the IDs\<close>

lemma collect_ids_acc:
  "collect_ids acc ls = acc @ filter (\<lambda>s. s \<noteq> []) (map strip ls)"
  by (induction ls arbitrary: acc) (simp_all add: Let_def)

lemma read_lead_ids_lines:
  "read_lead_ids_from_file filename (FileLines ls) =
     ([Log INFO [L ''Read '', N (length (filter (\<lambda>s. s \<noteq> []) (map strip ls))),
                 L '' Lead IDs from '', L filename]],
      Inr (filter (\<lambda>s. s \<noteq> []) (map strip ls)))"
  by (simp add: read_lead_ids_from_file_def open_read_def collect_ids_acc io_defs)

subsection \<open>The token exchange\<close>

lemma get_access_token_ok:
  assumes "list_all truthy_opt [CLIENT_ID ev, CLIENT_SECRET ev, REFRESH_TOKEN ev]"
    and "\<not> is_error_status r"
    and "json_body r = Some (JObj kvs)"
    and "map_of kvs ''access_token'' = Some tok"
    and "truthy tok"
  shows "get_access_token ev (Response r) =
           ([Log INFO [L ''Requesting new access token...''],
             HttpPost ZOHO_ACCOUNTS_URL (token_payload ev),
             Log INFO [L ''Successfully obtained new access token.'']], Inr tok)"
  using assms
  by (simp add: get_access_token_def requests_post_def requests_result_def raise_for_status_def
        response_json_def py_get_def is_error_status_def io_defs)

lemma get_access_token_http_error:
  assumes "list_all truthy_opt [CLIENT_ID ev, CLIENT_SECRET ev, REFRESH_TOKEN ev]"
    and "is_error_status r"
  shows "get_access_token ev (Response r) =
           ([Log INFO [L ''Requesting new access token...''],
             HttpPost ZOHO_ACCOUNTS_URL (token_payload ev),
             Log ERROR [L ''Error requesting access token: '', X (HTTPError r)],
             Log ERROR [L ''Response body: '', L (text_of r)]], Inl (HTTPError r))"
  using assms
  by (simp add: get_access_token_def requests_post_def requests_result_def raise_for_status_def
        response_text_or_none_def is_error_status_def io_defs)

lemma get_access_token_no_token:
  assumes "list_all truthy_opt [CLIENT_ID ev, CLIENT_SECRET ev, REFRESH_TOKEN ev]"
    and "\<not> is_error_status r"
    and "json_body r = Some (JObj kvs)"
    and "lacks_access_token kvs"
  shows "get_access_token ev (Response r) =
           ([Log INFO [L ''Requesting new access token...''],
             HttpPost ZOHO_ACCOUNTS_URL (token_payload ev),
             Log ERROR [L ''Failed to retrieve access token. Response: '', S (JObj kvs)],
             Log ERROR [L ''An unexpected error occurred during token refresh: '',
                        X (ValueError ''Could not get access token from Zoho response.'')]],
            Inl (ValueError ''Could not get access token from Zoho response.''))"
  using assms
  by (auto simp add: get_access_token_def requests_post_def requests_result_def
        raise_for_status_def response_json_def py_get_def lacks_access_token_def
        is_error_status_def io_defs split: option.splits)

lemma get_access_token_quiet: "quiet (fst (get_access_token ev srv))"
  by (cases srv)
     (auto simp: get_access_token_def requests_post_def requests_result_def raise_for_status_def
        response_json_def py_get_def response_text_or_none_def io_defs quiet_simps
        split: option.splits json.splits)

lemma token_failure:
  assumes "list_all truthy_opt [CLIENT_ID ev, CLIENT_SECRET ev, REFRESH_TOKEN ev]"
    and "token_failure_response r"
  shows "snd (get_access_token ev (Response r)) = Inl (token_error r)
       \<and> http_calls (fst (get_access_token ev (Response r))) =
           [HttpPost ZOHO_ACCOUNTS_URL (token_payload ev)]"
proof (cases "is_error_status r")
  case True
  then show ?thesis
    using get_access_token_http_error [OF assms(1), of r]
    by (simp add: token_error_def http_calls_simps)
next
  case False
  with assms(2) obtain kvs where "json_body r = Some (JObj kvs)" "lacks_access_token kvs"
    by (auto simp: token_failure_response_def split: option.splits json.splits)
  with False show ?thesis
    using get_access_token_no_token [OF assms(1), of r kvs]
    by (simp add: token_error_def http_calls_simps)
qed

lemma ex_token_exchange:
  "get_access_token ex_environ (Response ex_token_response) =
     ([Log INFO [L ''Requesting new access token...''],
       HttpPost ZOHO_ACCOUNTS_URL (token_payload ex_environ),
       Log INFO [L ''Successfully obtained new access token.'']], Inr (JStr ''X''))"
  by (rule get_access_token_ok [where kvs = "[(''access_token'', JStr ''X'')]"])
     (simp_all add: ex_environ_def ex_token_response_def json_response_def truthy_opt_def
        is_error_status_def)

subsection \<open>The update run\<close>

lemma update_main_token_failure:
  assumes "confirmed_update w"
    and "list_all truthy_opt
           [CLIENT_ID (u_environ w), CLIENT_SECRET (u_environ w), REFRESH_TOKEN (u_environ w)]"
    and "u_token_endpoint w = Response r"
    and "token_failure_response r"
  shows "http_calls (fst (update_main w)) =
           [HttpPost ZOHO_ACCOUNTS_URL (token_payload (u_environ w))]
       \<and> last (fst (update_main w)) = abort_message r
       \<and> snd (update_main w) = Inr ()"
proof -
  note t = token_failure [OF assms(2,4)]
  define tk where "tk = fst (get_access_token (u_environ w) (Response r))"
  have g: "get_access_token (u_environ w) (u_token_endpoint w) = (tk, Inl (token_error r))"
    using t by (simp add: tk_def assms(3) prod_eq_iff)
  from assms(1) obtain ls a where w: "u_input_file w = FileLines ls" "collect_ids [] ls \<noteq> []"
     "u_console w = Answer a" "lower a = ''yes''"
    by (auto simp: confirmed_update_def split: file_result.splits console.splits)
  have "\<exists>pre. http_calls pre = [] \<and> update_main w = (pre @ tk @ [abort_message r], Inr ())"
    using w
    by (auto simp add: update_main_def read_lead_ids_lines collect_ids_acc py_input_def g io_defs
          Let_def token_error_def abort_message_def http_calls_simps)
  then show ?thesis
    using t by (auto simp add: http_calls_simps tk_def abort_message_def)
qed

subsection \<open>The update results\<close>

lemma process_result_item:
  assumes "is_result_item item"
  shows "process_result item = (spec_report item, Inr ())"
proof -
  from assms obtain kvs where i: "item = JObj kvs"
    by (auto simp: is_result_item_def split: json.splits)
  show ?thesis
  proof (cases "map_of kvs ''details''")
    case None
    then show ?thesis
      by (simp add: i process_result_def py_get_def spec_report_def spec_success_def field_def
            spec_record_id_def success_report_def failure_report_def io_defs split: option.splits)
  next
    case (Some d)
    with assms i obtain dk where "d = JObj dk"
      by (auto simp: is_result_item_def split: json.splits)
    with Some show ?thesis
      by (simp add: i process_result_def py_get_def spec_report_def spec_success_def field_def
            spec_record_id_def success_report_def failure_report_def io_defs split: option.splits)
  qed
qed

text \<open>Anything else in the array stops the report with an \<^verbatim>\<open>AttributeError\<close>.\<close>

lemma process_result_other:
  assumes "\<not> is_result_item item"
  shows "process_result item = ([], Inl AttributeError)"
proof (cases item)
  case (JObj kvs)
  with assms obtain d where "map_of kvs ''details'' = Some d" "\<forall>dk. d \<noteq> JObj dk"
    by (auto simp: is_result_item_def split: option.splits json.splits)
  with JObj show ?thesis
    by (cases d) (simp_all add: process_result_def py_get_def io_defs split: option.splits)
qed (simp_all add: process_result_def py_get_def io_defs)

lemma process_results_items:
  "list_all is_result_item items \<Longrightarrow>
     process_results items = (concat (map spec_report items), Inr ())"
  by (induction items) (simp_all add: process_result_item io_defs)

lemma spec_report_success_iff:
  "spec_report item = success_report (spec_record_id item) \<longleftrightarrow> spec_success item"
  by (simp add: spec_report_def success_report_def failure_report_def)

subsection \<open>The export run\<close>

lemma fetch_main_received:
  assumes "receives_export w body"
  shows "\<exists>pre. quiet pre \<and>
           fetch_main w =
             (case snd (handle_leads_data ''output_data'' w body) of
                Inr u \<Rightarrow> (pre @ fst (handle_leads_data ''output_data'' w body), Inr ())
              | Inl e \<Rightarrow>
                  (pre @ fst (handle_leads_data ''output_data'' w body)
                   @ [Print [L (if is_ValueError e then ''Configuration Error: ''
                                else if is_RequestException e then ''API Request Error: ''
                                else ''An unexpected error occurred: ''), X e]], Inr ()))"
proof -
  from assms obtain tok where
    t: "snd (get_access_token (f_environ w) (f_token_endpoint w)) = Inr tok"
    by (auto simp: receives_export_def split: sum.splits)
  from assms obtain r where r: "f_crm_endpoint w = Response r" "\<not> is_error_status r"
      "json_body r = Some body"
    by (auto simp: receives_export_def split: http_result.splits)
  from assms have f: "f_folder_exists w \<or> \<not> f_makedirs_fails w"
    by (simp add: receives_export_def)
  define mk where "mk = (if f_folder_exists w then [] else [MakeDirs ''output_data''])"
  define tk where "tk = fst (get_access_token (f_environ w) (f_token_endpoint w))"
  define fe where "fe =
    [Log INFO [L ''Fetching leads from module '', L apostrophe, L MODULE_API_NAME,
               L apostrophe, L '' with custom view ID '', L apostrophe, L CUSTOM_VIEW_ID,
               L apostrophe, L ''...''],
     HttpGet (ZOHO_API_DOMAIN @ ''/crm/v8/'' @ MODULE_API_NAME) (auth_headers tok)
       [(''cvid'', [L CUSTOM_VIEW_ID]), (''per_page'', [N RECORDS_PER_PAGE]), (''page'', [N 1])],
     Log INFO [L ''Successfully fetched leads. Status code: '', N (status_code r)]]"
  have q: "quiet (mk @ tk @ fe)"
    by (simp add: mk_def tk_def fe_def quiet_simps get_access_token_quiet)
  have g: "get_access_token (f_environ w) (f_token_endpoint w) = (tk, Inr tok)"
    using t by (simp add: tk_def prod_eq_iff)
  have fl: "fetch_leads_from_custom_view (f_crm_endpoint w) tok MODULE_API_NAME CUSTOM_VIEW_ID
              RECORDS_PER_PAGE = (fe, Inr body)"
    using r by (simp add: fetch_leads_from_custom_view_def requests_get_def requests_result_def
        raise_for_status_def response_json_def is_error_status_def fe_def io_defs Let_def)
  have "fetch_main w =
             (case snd (handle_leads_data ''output_data'' w body) of
                Inr u \<Rightarrow> ((mk @ tk @ fe) @ fst (handle_leads_data ''output_data'' w body), Inr ())
              | Inl e \<Rightarrow>
                  ((mk @ tk @ fe) @ fst (handle_leads_data ''output_data'' w body)
                   @ [Print [L (if is_ValueError e then ''Configuration Error: ''
                                else if is_RequestException e then ''API Request Error: ''
                                else ''An unexpected error occurred: ''), X e]], Inr ()))"
  proof (cases "handle_leads_data ''output_data'' w body")
    case (Pair hs hr)
    show ?thesis
    proof (cases hr)
      case (Inl e)
      with Pair f show ?thesis
        by (auto simp add: fetch_main_def g fl mk_def os_makedirs_def io_defs Let_def)
    next
      case (Inr u)
      with Pair f show ?thesis
        by (auto simp add: fetch_main_def g fl mk_def os_makedirs_def io_defs Let_def)
    qed
  qed
  with q show ?thesis by blast
qed

lemma ex_receives_export:
  "receives_export (ex_export_world (Response ex_token_response) body) body"
  by (simp add: receives_export_def ex_export_world_def ex_token_exchange json_response_def
        is_error_status_def)

lemma fetch_main_token_failure:
  assumes "f_folder_exists w \<or> \<not> f_makedirs_fails w"
    and "list_all truthy_opt
           [CLIENT_ID (f_environ w), CLIENT_SECRET (f_environ w), REFRESH_TOKEN (f_environ w)]"
    and "f_token_endpoint w = Response r"
    and "token_failure_response r"
  shows "http_calls (fst (fetch_main w)) =
           [HttpPost ZOHO_ACCOUNTS_URL (token_payload (f_environ w))]
       \<and> file_writes (fst (fetch_main w)) = []
       \<and> last (fst (fetch_main w)) = abort_message r
       \<and> snd (fetch_main w) = Inr ()"
proof -
  note t = token_failure [OF assms(2,4)]
  define tk where "tk = fst (get_access_token (f_environ w) (Response r))"
  have g: "get_access_token (f_environ w) (f_token_endpoint w) = (tk, Inl (token_error r))"
    using t by (simp add: tk_def assms(3) prod_eq_iff)
  have q: "quiet tk" by (simp add: tk_def get_access_token_quiet)
  have "fetch_main w =
          ((if f_folder_exists w then [] else [MakeDirs ''output_data''])
           @ tk @ [abort_message r], Inr ())"
    using assms(1)
    by (auto simp add: fetch_main_def g os_makedirs_def io_defs Let_def token_error_def
          abort_message_def)
  then show ?thesis
    using t quiet_filters [OF q]
    by (simp add: http_calls_simps file_writes_simps tk_def abort_message_def)
qed

lemma has_leads_list:
  assumes "map_of kvs ''data'' = Some (JList (x # xs))"
  shows "has_leads (JObj kvs) = Inr True"
proof -
  from assms have k: "''data'' \<in> set (map fst kvs)"
    by (metis map_of_None_keys option.distinct(1))
  then have "kvs \<noteq> []" by auto
  with k assms show ?thesis
    by (simp add: has_leads_def py_in_def py_index_def isinstance_list_def)
qed

lemma has_leads_none:
  assumes "case map_of kvs ''data'' of None \<Rightarrow> True | Some d \<Rightarrow> d = JList [] \<or> \<not> isinstance_list d"
  shows "has_leads (JObj kvs) = Inr False"
proof (cases "map_of kvs ''data''")
  case None
  then have "''data'' \<notin> set (map fst kvs)" by (simp add: map_of_eq_None_iff)
  then show ?thesis by (simp add: has_leads_def py_in_def)
next
  case (Some d)
  then have "''data'' \<in> set (map fst kvs)"
    by (metis map_of_None_keys option.distinct(1))
  with Some assms show ?thesis
    by (auto simp add: has_leads_def py_in_def py_index_def)
qed

lemma dict_to_list_record:
  "is_record_for headers r \<Longrightarrow> dict_to_list headers r = Inr (spec_row headers r)"
  by (auto simp: is_record_for_def dict_to_list_def spec_row_def field_def list_ex_iff list_all_iff
      split: json.splits)

lemma writerows_records:
  "list_all (is_record_for headers) rows \<Longrightarrow>
   writerows path headers fault i rows =
     (case fault of
        None \<Rightarrow> (map (\<lambda>r. FileCsvRow path (spec_row headers r)) rows, Inr ())
      | Some j \<Rightarrow>
          if i \<le> j \<and> j < i + length rows
          then (map (\<lambda>r. FileCsvRow path (spec_row headers r)) (take (j - i) rows), Inl OSError)
          else (map (\<lambda>r. FileCsvRow path (spec_row headers r)) rows, Inr ()))"
proof (induction rows arbitrary: i)
  case Nil
  then show ?case by (auto simp add: io_defs split: option.splits)
next
  case (Cons r rows)
  then have r: "dict_to_list headers r = Inr (spec_row headers r)"
    and rs: "list_all (is_record_for headers) rows"
    by (simp_all add: dict_to_list_record)
  show ?case
  proof (cases fault)
    case None
    then show ?thesis using Cons.IH [OF rs, of "Suc i"] r
      by (simp add: file_op_def io_defs)
  next
    case (Some j)
    then show ?thesis using Cons.IH [OF rs, of "Suc i"] r
      by (auto simp add: file_op_def io_defs Suc_diff_le take_Cons')
  qed
qed

lemma write_csv_records:
  assumes "list_all (is_record_for headers) leads"
  shows "file_writes (fst (write_csv path headers fault leads)) =
           until_fault fault (spec_csv_file path headers leads)
         \<and> snd (write_csv path headers fault leads) = Inr ()"
proof (cases fault)
  case None
  then show ?thesis
    by (simp add: write_csv_def writerows_records [OF assms] file_op_def io_defs
          until_fault_def spec_csv_file_def file_writes_simps file_writes_rows)
next
  case (Some j)
  consider "j = 0" | "j = 1" | "2 \<le> j" by linarith
  then show ?thesis
  proof cases
    case 1
    with Some show ?thesis
      by (simp add: write_csv_def file_op_def io_defs until_fault_def file_writes_simps)
  next
    case 2
    with Some show ?thesis
      by (simp add: write_csv_def file_op_def io_defs until_fault_def spec_csv_file_def
            file_writes_simps)
  next
    case 3
    then obtain k where k: "j = Suc (Suc k)"
      by (metis One_nat_def Suc_1 Suc_le_D Suc_le_mono)
    show ?thesis
      by (simp add: Some k write_csv_def writerows_records [OF assms] file_op_def io_defs
            until_fault_def spec_csv_file_def file_writes_simps file_writes_rows take_map)
  qed
qed

lemma write_json_any:
  "file_writes (fst (write_json path fault leads)) = until_fault fault (spec_json_file path leads)
   \<and> snd (write_json path fault leads) = Inr ()"
proof (cases fault)
  case None
  then show ?thesis
    by (simp add: write_json_def file_op_def io_defs until_fault_def spec_json_file_def
          file_writes_simps)
next
  case (Some j)
  consider "j = 0" | "j = 1" | "2 \<le> j" by linarith
  then show ?thesis
  proof cases
    case 1
    with Some show ?thesis
      by (simp add: write_json_def file_op_def io_defs until_fault_def file_writes_simps)
  next
    case 2
    with Some show ?thesis
      by (simp add: write_json_def file_op_def io_defs until_fault_def spec_json_file_def
            file_writes_simps)
  next
    case 3
    then obtain k where k: "j = Suc (Suc k)"
      by (metis One_nat_def Suc_1 Suc_le_D Suc_le_mono)
    show ?thesis
      by (simp add: Some k write_json_def file_op_def io_defs until_fault_def spec_json_file_def
            file_writes_simps)
  qed
qed

lemma handle_leads_data_records:
  assumes "map_of kvs ''data'' = Some (JList (JObj first # rest))"
    and "list_all (is_record_for (map fst first)) rest"
  shows "file_writes (fst (handle_leads_data ''output_data'' w (JObj kvs))) =
           until_fault (f_csv_fault w)
             (spec_csv_file (csv_filename_of w) (map fst first) (JObj first # rest))
           @ until_fault (f_json_fault w) (spec_json_file (json_filename_of w) (JObj first # rest))
         \<and> snd (handle_leads_data ''output_data'' w (JObj kvs)) = Inr ()"
proof -
  let ?leads = "JObj first # rest"
  have "is_record_for (map fst first) (JObj first)"
    by (simp add: is_record_for_def list_all_iff)
  with assms(2) have recs: "list_all (is_record_for (map fst first)) ?leads" by simp
  note c = write_csv_records [OF recs, of "csv_filename_of w" "f_csv_fault w"]
  note j = write_json_any [of "json_filename_of w" "f_json_fault w" ?leads]
  have "handle_leads_data ''output_data'' w (JObj kvs) =
          (Log INFO [L ''Successfully fetched '', N (length ?leads), L '' leads.'']
             # fst (write_csv (csv_filename_of w) (map fst first) (f_csv_fault w) ?leads)
             @ fst (write_json (json_filename_of w) (f_json_fault w) ?leads), Inr ())"
    using c j
    by (simp add: handle_leads_data_def has_leads_list [OF assms(1)] py_index_def assms(1)
          write_leads_def first_keys_def csv_filename_of_def json_filename_of_def
          io_then_returned io_bind_def io_of_def emit_def Let_def)
  then show ?thesis using c j by (simp add: file_writes_simps)
qed

lemma handle_leads_data_none:
  assumes "case map_of kvs ''data'' of None \<Rightarrow> True | Some d \<Rightarrow> d = JList [] \<or> \<not> isinstance_list d"
  shows "handle_leads_data ''output_data'' w (JObj kvs) =
      (if kvs = [] then [Print [L ''No data returned from the API.''],
                         Log WARNING [L ''No data returned from the API.'']]
       else [Log WARNING [L ''API response received, but it did not contain a list of leads in the '',
                          L apostrophe, L ''data'', L apostrophe, L '' key.''],
             Print [L ''API response received, but no leads found in the expected format.'']],
       Inr ())"
  by (simp add: handle_leads_data_def has_leads_none [OF assms] io_defs)

section \<open>The claims\<close>

text \<open>
  C1. Whatever the operator answers at the confirmation prompt, if its lower-case form
  is not \<open>yes\<close> then the update script makes no HTTP call at all (no token exchange,
  no PUT) and returns; when the prompt was shown, the last thing the run does is print
  the cancellation message.
\<close>

theorem update_cancelled_no_http:
  assumes "u_console w = Answer a" and "lower a \<noteq> ''yes''"
  shows "http_calls (fst (update_main w)) = []
       \<and> snd (update_main w) = Inr ()
       \<and> (filter is_input (fst (update_main w)) \<noteq> [] \<longrightarrow>
            last (fst (update_main w)) = Print [L ''Operation cancelled by user.''])"
proof (cases "u_input_file w")
  case FileMissing
  then show ?thesis
    by (simp add: update_main_def read_lead_ids_from_file_def open_read_def http_calls_def io_defs)
next
  case FileUnreadable
  then show ?thesis
    by (simp add: update_main_def read_lead_ids_from_file_def open_read_def http_calls_def io_defs)
next
  case (FileLines ls)
  then show ?thesis using assms
    by (simp add: update_main_def read_lead_ids_lines py_input_def http_calls_def io_defs Let_def)
qed

theorem update_cancelled_no_http_witness:
  "u_console (ex_update_world [''1'', ''2''] ''Yes!'') = Answer ''Yes!''
   \<and> lower ''Yes!'' \<noteq> ''yes''
   \<and> filter is_input (fst (update_main (ex_update_world [''1'', ''2''] ''Yes!''))) \<noteq> []
   \<and> http_calls (fst (update_main (ex_update_world [''1'', ''2''] ''Yes!''))) = []
   \<and> snd (update_main (ex_update_world [''1'', ''2''] ''Yes!'')) = Inr ()
   \<and> last (fst (update_main (ex_update_world [''1'', ''2''] ''Yes!''))) =
       Print [L ''Operation cancelled by user.'']"
proof -
  let ?w = "ex_update_world [''1'', ''2''] ''Yes!''"
  have a: "u_console ?w = Answer ''Yes!''" by (simp add: ex_update_world_def)
  have b: "lower ''Yes!'' \<noteq> ''yes''" by (simp add: lower_def lower_char_def)
  have c: "filter is_input (fst (update_main ?w)) \<noteq> []"
    using b
    by (simp add: update_main_def ex_update_world_def read_lead_ids_lines strip_def lstrip_def rstrip_def leading_def whitespace_def
          py_input_def io_defs Let_def)
  from update_cancelled_no_http [OF a b] a b c show ?thesis by simp
qed

text \<open>
  C2. When the response's \<open>data\<close> array holds Update Result Items, the report is, item
  by item and in order, the success report exactly when the item's \<open>status\<close> is
  \<open>success\<close> and its \<open>code\<close> is \<open>SUCCESS\<close>, and otherwise the failure report with the
  status, code, message and details the server sent; the record ID of either report
  comes from the details.
\<close>

theorem update_results_classified:
  assumes "body = JObj kvs" and "map_of kvs ''data'' = Some (JList items)"
    and "list_all is_result_item items"
  shows "process_update_response body =
           ([Print [L newline, L ''--- Update Results ---'']] @ concat (map spec_report items)
            @ [Print [L ''--- End of Results ---'']], Inr ())
       \<and> (\<forall>item \<in> set items.
            (spec_report item = success_report (spec_record_id item)) = spec_success item)"
proof -
  from assms(2) have k: "''data'' \<in> set (map fst kvs)"
    by (metis map_of_None_keys option.distinct(1))
  then have "kvs \<noteq> []" by auto
  with k assms(1,2) have "unexpected_format body = Inr False"
    by (simp add: unexpected_format_def py_in_def py_index_def isinstance_list_def)
  then show ?thesis using assms
    by (simp add: process_update_response_def py_index_def for_each_result_def
          process_results_items spec_report_success_iff io_defs)
qed

theorem update_results_classified_witness:
  "process_update_response ex_update_response =
     ([Print [L newline, L ''--- Update Results ---'']]
      @ success_report (JStr ''1'')
      @ failure_report (JStr ''2'') (JStr ''error'') (JStr ''INVALID_DATA'') (JStr ''bad'')
          (JObj [(''id'', JStr ''2'')])
      @ [Print [L ''--- End of Results ---'']], Inr ())"
proof -
  let ?items = "[JObj [(''status'', JStr ''success''), (''code'', JStr ''SUCCESS''),
                       (''details'', JObj [(''id'', JStr ''1'')])],
                 JObj [(''status'', JStr ''error''), (''code'', JStr ''INVALID_DATA''),
                       (''message'', JStr ''bad''), (''details'', JObj [(''id'', JStr ''2'')])]]"
  have a: "ex_update_response = JObj [(''data'', JList ?items)]"
    by (simp add: ex_update_response_def)
  have b: "map_of [(''data'', JList ?items)] ''data'' = Some (JList ?items)" by simp
  have c: "list_all is_result_item ?items" by (simp add: is_result_item_def)
  from update_results_classified [OF a b c] show ?thesis
    by (simp add: spec_report_def spec_success_def spec_record_id_def field_def)
qed

text \<open>
  C3, as amended. When the export response holds under \<open>data\<close> a non-empty list of
  records, the first an object and every later one an object whose keys are among the
  first one's, the run writes a CSV file whose header is the key list of the first
  record and whose rows are the records in response order (each row the record's
  values under the header, empty where it has none), and a JSON file that is the dump
  of the same list with indent 4. A failure of either file cuts that file short, is
  caught, and leaves the other file as it would have been.
\<close>

theorem export_writes_csv_and_json:
  assumes "receives_export w (JObj kvs)"
    and "map_of kvs ''data'' = Some (JList (JObj first # rest))"
    and "list_all (is_record_for (map fst first)) rest"
  shows "file_writes (fst (fetch_main w)) =
           until_fault (f_csv_fault w)
             (spec_csv_file (csv_filename_of w) (map fst first) (JObj first # rest))
           @ until_fault (f_json_fault w) (spec_json_file (json_filename_of w) (JObj first # rest))
         \<and> snd (fetch_main w) = Inr ()"
proof -
  note h = handle_leads_data_records [OF assms(2,3), of w]
  from fetch_main_received [OF assms(1)] h obtain pre where
    "quiet pre" and
    "fetch_main w = (pre @ fst (handle_leads_data ''output_data'' w (JObj kvs)), Inr ())"
    by auto
  then show ?thesis
    using quiet_filters [of pre] h by (simp add: file_writes_simps)
qed

theorem export_writes_csv_and_json_witness:
  "receives_export (ex_export_world (Response ex_token_response) (JObj [(''data'', JList ex_leads)]))
     (JObj [(''data'', JList ex_leads)])
   \<and> file_writes (fst (fetch_main
        (ex_export_world (Response ex_token_response) (JObj [(''data'', JList ex_leads)])))) =
       [FileOpen ''output_data/zoho_leads_20240101_120000.csv'',
        FileCsvHeader ''output_data/zoho_leads_20240101_120000.csv'' [''id'', ''Last_Name''],
        FileCsvRow ''output_data/zoho_leads_20240101_120000.csv'' [JStr ''1'', JStr ''A''],
        FileCsvRow ''output_data/zoho_leads_20240101_120000.csv'' [JStr ''2'', JStr ''B''],
        FileOpen ''output_data/zoho_leads_20240101_120000.json'',
        FileJsonDump ''output_data/zoho_leads_20240101_120000.json'' (JList ex_leads) 4]
   \<and> snd (fetch_main
        (ex_export_world (Response ex_token_response) (JObj [(''data'', JList ex_leads)]))) = Inr ()"
proof -
  let ?kvs = "[(''data'', JList ex_leads)]"
  let ?first = "[(''id'', JStr ''1''), (''Last_Name'', JStr ''A'')]"
  let ?rest = "[JObj [(''id'', JStr ''2''), (''Last_Name'', JStr ''B'')]]"
  let ?w = "ex_export_world (Response ex_token_response) (JObj ?kvs)"
  have a: "receives_export ?w (JObj ?kvs)" by (rule ex_receives_export)
  have b: "map_of ?kvs ''data'' = Some (JList (JObj ?first # ?rest))"
    by (simp add: ex_leads_def)
  have c: "list_all (is_record_for (map fst ?first)) ?rest"
    by (simp add: is_record_for_def)
  from export_writes_csv_and_json [OF a b c] a show ?thesis
    by (simp add: ex_export_world_def until_fault_def spec_csv_file_def spec_json_file_def
          spec_row_def field_def csv_filename_of_def json_filename_of_def ex_leads_def)
qed

text \<open>
  The claim as first stated asks this of every non-empty list under \<open>data\<close>. A later
  record with a field that the first record lacks ends the CSV there: of two records,
  one row is written.
\<close>

theorem export_extra_field_cuts_csv:
  "file_writes (fst (fetch_main
      (ex_export_world (Response ex_token_response) (JObj [(''data'', JList ex_uneven_leads)])))) =
     [FileOpen ''output_data/zoho_leads_20240101_120000.csv'',
      FileCsvHeader ''output_data/zoho_leads_20240101_120000.csv'' [''id''],
      FileCsvRow ''output_data/zoho_leads_20240101_120000.csv'' [JStr ''1''],
      FileOpen ''output_data/zoho_leads_20240101_120000.json'',
      FileJsonDump ''output_data/zoho_leads_20240101_120000.json'' (JList ex_uneven_leads) 4]
   \<and> length ex_uneven_leads = 2"
proof -
  let ?body = "JObj [(''data'', JList ex_uneven_leads)]"
  let ?w = "ex_export_world (Response ex_token_response) ?body"
  have h: "handle_leads_data ''output_data'' ?w ?body =
     ([Log INFO [L ''Successfully fetched '', N 2, L '' leads.''],
       FileOpen ''output_data/zoho_leads_20240101_120000.csv'',
       FileCsvHeader ''output_data/zoho_leads_20240101_120000.csv'' [''id''],
       FileCsvRow ''output_data/zoho_leads_20240101_120000.csv'' [JStr ''1''],
       Log ERROR [L ''An unexpected error occurred during CSV writing: '', X FieldsError],
       Print [L ''An unexpected error occurred during CSV writing: '', X FieldsError],
       FileOpen ''output_data/zoho_leads_20240101_120000.json'',
       FileJsonDump ''output_data/zoho_leads_20240101_120000.json'' (JList ex_uneven_leads) 4,
       Log INFO [L ''Successfully wrote '', N 2, L '' leads to '',
                 L ''output_data/zoho_leads_20240101_120000.json''],
       Print [L ''Successfully wrote '', N 2, L '' leads to '',
              L ''output_data/zoho_leads_20240101_120000.json'']], Inr ())"
    by (simp add: handle_leads_data_def has_leads_def py_in_def py_index_def isinstance_list_def
          write_leads_def first_keys_def write_csv_def write_json_def dict_to_list_def
          file_op_def ex_export_world_def ex_uneven_leads_def io_defs Let_def)
  from fetch_main_received [OF ex_receives_export, of ?body] obtain pre where
    "quiet pre" and "fetch_main ?w = (pre @ fst (handle_leads_data ''output_data'' ?w ?body), Inr ())"
    by (auto simp: h)
  then have "file_writes (fst (fetch_main ?w)) =
     [FileOpen ''output_data/zoho_leads_20240101_120000.csv'',
      FileCsvHeader ''output_data/zoho_leads_20240101_120000.csv'' [''id''],
      FileCsvRow ''output_data/zoho_leads_20240101_120000.csv'' [JStr ''1''],
      FileOpen ''output_data/zoho_leads_20240101_120000.json'',
      FileJsonDump ''output_data/zoho_leads_20240101_120000.json'' (JList ex_uneven_leads) 4]"
    using quiet_filters [of pre] by (simp add: h file_writes_simps)
  moreover have "length ex_uneven_leads = 2" by (simp add: ex_uneven_leads_def)
  ultimately show ?thesis by simp
qed

text \<open>
  C4. When one of the three credentials is absent (or empty), the token exchange
  raises the \<^verbatim>\<open>ValueError\<close> about the missing credentials, having logged the fact
  and made no HTTP call.
\<close>

theorem missing_credential_fails_before_network:
  assumes "c \<in> {CLIENT_ID ev, CLIENT_SECRET ev, REFRESH_TOKEN ev}"
    and "c = None \<or> c = Some []"
  shows "get_access_token ev srv =
           ([Log ERROR [L ''Missing one or more OAuth credentials in environment variables.'']],
            Inl (ValueError ''Zoho OAuth credentials (CLIENT_ID, CLIENT_SECRET, REFRESH_TOKEN) not found in .env file.''))
         \<and> http_calls (fst (get_access_token ev srv)) = []"
proof -
  from assms have "\<not> list_all truthy_opt [CLIENT_ID ev, CLIENT_SECRET ev, REFRESH_TOKEN ev]"
    by (auto simp: truthy_opt_def split: option.splits)
  then show ?thesis
    by (simp add: get_access_token_def http_calls_def io_defs)
qed

theorem missing_credential_fails_before_network_witness:
  "None \<in> {CLIENT_ID ex_environ_no_secret, CLIENT_SECRET ex_environ_no_secret,
            REFRESH_TOKEN ex_environ_no_secret}
   \<and> get_access_token ex_environ_no_secret (Response ex_token_response) =
       ([Log ERROR [L ''Missing one or more OAuth credentials in environment variables.'']],
        Inl (ValueError ''Zoho OAuth credentials (CLIENT_ID, CLIENT_SECRET, REFRESH_TOKEN) not found in .env file.''))
   \<and> http_calls (fst (get_access_token ex_environ_no_secret (Response ex_token_response))) = []"
proof -
  have a: "None \<in> {CLIENT_ID ex_environ_no_secret, CLIENT_SECRET ex_environ_no_secret,
                    REFRESH_TOKEN ex_environ_no_secret}"
    by (simp add: ex_environ_no_secret_def)
  have b: "(None :: string option) = None \<or> None = Some []" by simp
  from missing_credential_fails_before_network [OF a b, of "Response ex_token_response"] a
  show ?thesis by blast
qed

text \<open>
  C5, as amended. With the credentials present, a token-endpoint response with a
  status from 400 to 599 makes the token exchange raise the \<^verbatim>\<open>HTTPError\<close> of that
  response, and a response with any other status whose JSON body is an object without
  an access token makes it raise a \<^verbatim>\<open>ValueError\<close>, which is the kind of error that
  missing credentials raise and which the caller reports as a configuration error. In
  both cases the POST is the only HTTP call of the exchange and of the whole run: the
  caller prints the error and returns, writing no file; there is no retry.
\<close>

theorem token_exchange_failure_aborts:
  assumes "list_all truthy_opt [CLIENT_ID ev, CLIENT_SECRET ev, REFRESH_TOKEN ev]"
    and "token_failure_response r"
  shows "snd (get_access_token ev (Response r)) = Inl (token_error r)
       \<and> http_calls (fst (get_access_token ev (Response r))) =
           [HttpPost ZOHO_ACCOUNTS_URL (token_payload ev)]
       \<and> (\<forall>w. f_environ w = ev \<and> f_token_endpoint w = Response r
               \<and> (f_folder_exists w \<or> \<not> f_makedirs_fails w) \<longrightarrow>
             http_calls (fst (fetch_main w)) = [HttpPost ZOHO_ACCOUNTS_URL (token_payload ev)]
             \<and> file_writes (fst (fetch_main w)) = []
             \<and> last (fst (fetch_main w)) = abort_message r
             \<and> snd (fetch_main w) = Inr ())
       \<and> (\<forall>w. u_environ w = ev \<and> u_token_endpoint w = Response r \<and> confirmed_update w \<longrightarrow>
             http_calls (fst (update_main w)) = [HttpPost ZOHO_ACCOUNTS_URL (token_payload ev)]
             \<and> last (fst (update_main w)) = abort_message r
             \<and> snd (update_main w) = Inr ())"
  using token_failure [OF assms] fetch_main_token_failure update_main_token_failure assms
  by blast

theorem token_exchange_failure_aborts_witness:
  "list_all truthy_opt [CLIENT_ID ex_environ, CLIENT_SECRET ex_environ, REFRESH_TOKEN ex_environ]
   \<and> token_failure_response (json_response 401 JNull)
   \<and> snd (get_access_token ex_environ (Response (json_response 401 JNull))) =
       Inl (HTTPError (json_response 401 JNull))
   \<and> http_calls (fst (get_access_token ex_environ (Response (json_response 401 JNull)))) =
       [HttpPost ZOHO_ACCOUNTS_URL (token_payload ex_environ)]
   \<and> http_calls (fst (fetch_main (ex_export_world (Response (json_response 401 JNull)) JNull))) =
       [HttpPost ZOHO_ACCOUNTS_URL (token_payload ex_environ)]
   \<and> last (fst (fetch_main (ex_export_world (Response (json_response 401 JNull)) JNull))) =
       Print [L ''API Request Error: '', X (HTTPError (json_response 401 JNull))]"
proof -
  let ?r = "json_response 401 JNull"
  let ?w = "ex_export_world (Response ?r) JNull"
  have a: "list_all truthy_opt
             [CLIENT_ID ex_environ, CLIENT_SECRET ex_environ, REFRESH_TOKEN ex_environ]"
    by (simp add: ex_environ_def truthy_opt_def)
  have b: "token_failure_response ?r"
    by (simp add: token_failure_response_def is_error_status_def json_response_def)
  have e: "is_error_status ?r" by (simp add: is_error_status_def json_response_def)
  have w: "f_environ ?w = ex_environ \<and> f_token_endpoint ?w = Response ?r
           \<and> (f_folder_exists ?w \<or> \<not> f_makedirs_fails ?w)"
    by (simp add: ex_export_world_def)
  note t = token_exchange_failure_aborts [OF a b]
  from t have 1: "snd (get_access_token ex_environ (Response ?r)) = Inl (token_error ?r)"
    and 2: "http_calls (fst (get_access_token ex_environ (Response ?r))) =
              [HttpPost ZOHO_ACCOUNTS_URL (token_payload ex_environ)]"
    by simp_all
  from t w have 3: "http_calls (fst (fetch_main ?w)) =
                      [HttpPost ZOHO_ACCOUNTS_URL (token_payload ex_environ)]"
    and 4: "last (fst (fetch_main ?w)) = abort_message ?r"
    by blast+
  from a b 1 2 3 4 e show ?thesis
    by (simp add: token_error_def abort_message_def)
qed

text \<open>
  The claim as first stated fails in two places: a success response without an access
  token raises a \<^verbatim>\<open>ValueError\<close>, as missing credentials do, and the caller reports
  it as a configuration error; and a response whose status is not 2xx but is no error
  status either (here 300) does not fail at all.
\<close>

theorem token_exchange_failure_kinds:
  "snd (get_access_token ex_environ (Response (json_response 200 (JObj [])))) =
     Inl (ValueError ''Could not get access token from Zoho response.'')
   \<and> snd (get_access_token ex_environ_no_secret (Response (json_response 200 (JObj [])))) =
     Inl (ValueError ''Zoho OAuth credentials (CLIENT_ID, CLIENT_SECRET, REFRESH_TOKEN) not found in .env file.'')
   \<and> last (fst (fetch_main (ex_export_world (Response (json_response 200 (JObj []))) JNull))) =
     Print [L ''Configuration Error: '',
            X (ValueError ''Could not get access token from Zoho response.'')]
   \<and> snd (get_access_token ex_environ
        (Response (json_response 300 (JObj [(''access_token'', JStr ''X'')])))) = Inr (JStr ''X'')"
proof -
  let ?r = "json_response 200 (JObj [])"
  have a: "list_all truthy_opt
             [CLIENT_ID ex_environ, CLIENT_SECRET ex_environ, REFRESH_TOKEN ex_environ]"
    by (simp add: ex_environ_def truthy_opt_def)
  have n: "\<not> is_error_status ?r" by (simp add: is_error_status_def json_response_def)
  have b: "token_failure_response ?r"
    by (simp add: token_failure_response_def lacks_access_token_def json_response_def)
  have 1: "snd (get_access_token ex_environ (Response ?r)) =
             Inl (ValueError ''Could not get access token from Zoho response.'')"
    using token_failure [OF a b] n by (simp add: token_error_def)
  have 2: "snd (get_access_token ex_environ_no_secret (Response ?r)) =
     Inl (ValueError ''Zoho OAuth credentials (CLIENT_ID, CLIENT_SECRET, REFRESH_TOKEN) not found in .env file.'')"
    by (simp add: get_access_token_def ex_environ_no_secret_def truthy_opt_def io_defs)
  have 3: "last (fst (fetch_main (ex_export_world (Response ?r) JNull))) =
             Print [L ''Configuration Error: '',
                    X (ValueError ''Could not get access token from Zoho response.'')]"
    using fetch_main_token_failure [of "ex_export_world (Response ?r) JNull" ?r] a b n
    by (simp add: ex_export_world_def abort_message_def token_error_def)
  have 4: "snd (get_access_token ex_environ
        (Response (json_response 300 (JObj [(''access_token'', JStr ''X'')])))) = Inr (JStr ''X'')"
    using get_access_token_ok [OF a, of "json_response 300 (JObj [(''access_token'', JStr ''X'')])"
        "[(''access_token'', JStr ''X'')]" "JStr ''X''"]
    by (simp add: is_error_status_def json_response_def)
  from 1 2 3 4 show ?thesis by simp
qed

text \<open>
  C6. From the lines of the input file the update path reads, in file order, each
  line stripped of surrounding whitespace, leaving out those that are then empty.
\<close>

theorem read_lead_ids_nonempty_trimmed:
  "snd (read_lead_ids_from_file filename (FileLines ls)) =
     Inr (filter (\<lambda>lead_id. lead_id \<noteq> []) (map strip ls))"
proof -
  have "collect_ids [] ls = filter (\<lambda>lead_id. lead_id \<noteq> []) (map strip ls)"
    by (simp add: collect_ids_acc)
  moreover have "snd (read_lead_ids_from_file filename (FileLines ls)) = Inr (collect_ids [] ls)"
    by (simp add: read_lead_ids_from_file_def open_read_def io_defs Let_def)
  ultimately show ?thesis by simp
qed

theorem read_lead_ids_nonempty_trimmed_witness:
  "snd (read_lead_ids_from_file INPUT_FILE (FileLines [''1'', '''', ''2'', '' ''])) =
     Inr [''1'', ''2'']
   \<and> snd (read_lead_ids_from_file INPUT_FILE
        (FileLines [''1'' @ newline, newline, '' 2 '' @ newline, '' '' @ newline])) =
     Inr [''1'', ''2'']
   \<and> snd (read_lead_ids_from_file INPUT_FILE (FileLines ex_id_lines)) = Inr [''123'', ''7'']"
  using read_lead_ids_nonempty_trimmed [of INPUT_FILE "[''1'', '''', ''2'', '' '']"]
    read_lead_ids_nonempty_trimmed [of INPUT_FILE
      "[''1'' @ newline, newline, '' 2 '' @ newline, '' '' @ newline]"]
    read_lead_ids_nonempty_trimmed [of INPUT_FILE ex_id_lines]
  by (simp add: strip_def lstrip_def rstrip_def leading_def whitespace_def newline_def
        ex_id_lines_def)

text \<open>
  C7, as amended. When the export response is an object whose \<open>data\<close> is missing, an
  empty list, or no list, the run writes no CSV and no JSON file and returns. It
  prints one message: that no leads were found in the expected format when the object
  has some field, and that no data was returned when the object is empty.
\<close>

theorem export_no_leads_no_files:
  assumes "receives_export w (JObj kvs)"
    and "case map_of kvs ''data'' of
           None \<Rightarrow> True
         | Some d \<Rightarrow> d = JList [] \<or> \<not> isinstance_list d"
  shows "file_writes (fst (fetch_main w)) = []
       \<and> snd (fetch_main w) = Inr ()
       \<and> filter is_print (fst (fetch_main w)) =
           [Print [L (if kvs = [] then ''No data returned from the API.''
                      else ''API response received, but no leads found in the expected format.'')]]"
proof -
  note hd = handle_leads_data_none [OF assms(2), of w]
  from fetch_main_received [OF assms(1)] obtain pre where
    "quiet pre" and
    "fetch_main w = (pre @ fst (handle_leads_data ''output_data'' w (JObj kvs)), Inr ())"
    by (auto simp: hd)
  then show ?thesis
    using quiet_filters [of pre] by (simp add: hd file_writes_def)
qed

theorem export_no_leads_no_files_witness:
  "receives_export (ex_export_world (Response ex_token_response) (JObj [(''data'', JList [])]))
     (JObj [(''data'', JList [])])
   \<and> file_writes (fst (fetch_main
        (ex_export_world (Response ex_token_response) (JObj [(''data'', JList [])])))) = []
   \<and> filter is_print (fst (fetch_main
        (ex_export_world (Response ex_token_response) (JObj [(''data'', JList [])])))) =
       [Print [L ''API response received, but no leads found in the expected format.'']]"
proof -
  let ?kvs = "[(''data'', JList [])]"
  have a: "receives_export (ex_export_world (Response ex_token_response) (JObj ?kvs)) (JObj ?kvs)"
    by (rule ex_receives_export)
  have b: "case map_of ?kvs ''data'' of
             None \<Rightarrow> True
           | Some d \<Rightarrow> d = JList [] \<or> \<not> isinstance_list d"
    by simp
  from export_no_leads_no_files [OF a b] a show ?thesis by simp
qed

text \<open>
  The claim as first stated promises the message about no leads found for every
  response without \<open>data\<close>. For the empty object the run prints another message.
\<close>

theorem export_empty_body_message:
  "filter is_print (fst (fetch_main (ex_export_world (Response ex_token_response) (JObj [])))) =
     [Print [L ''No data returned from the API.'']]
   \<and> Print [L ''API response received, but no leads found in the expected format.'']
       \<notin> set (fst (fetch_main (ex_export_world (Response ex_token_response) (JObj []))))"
proof -
  let ?w = "ex_export_world (Response ex_token_response) (JObj [])"
  have h: "handle_leads_data ''output_data'' ?w (JObj []) =
             ([Print [L ''No data returned from the API.''],
               Log WARNING [L ''No data returned from the API.'']], Inr ())"
    by (simp add: handle_leads_data_def has_leads_def io_defs)
  from fetch_main_received [OF ex_receives_export, of "JObj []"] obtain pre where
    q: "quiet pre" and f: "fetch_main ?w = (pre @ fst (handle_leads_data ''output_data'' ?w (JObj [])), Inr ())"
    by (auto simp: h)
  from q have "Print [L ''API response received, but no leads found in the expected format.'']
                 \<notin> set pre"
    by (auto simp: quiet_def)
  then show ?thesis
    using quiet_filters [OF q] f by (simp add: h)
qed



text \<open>
  C9. With the three credentials present and a token endpoint that answers with a
  success status and a JSON object whose \<open>access_token\<close> is the string \<open>X\<close>, the token
  exchange returns \<open>X\<close>.
\<close>

theorem token_exchange_returns_token:
  assumes "list_all truthy_opt [CLIENT_ID ev, CLIENT_SECRET ev, REFRESH_TOKEN ev]"
    and "200 \<le> status_code r \<and> status_code r < 300"
    and "json_body r = Some (JObj kvs)"
    and "map_of kvs ''access_token'' = Some (JStr token)"
    and "token \<noteq> []"
  shows "snd (get_access_token ev (Response r)) = Inr (JStr token)"
  using get_access_token_ok [OF assms(1) _ assms(3,4)] assms(2,5)
  by (simp add: is_error_status_def)

theorem token_exchange_returns_token_witness:
  "list_all truthy_opt [CLIENT_ID ex_environ, CLIENT_SECRET ex_environ, REFRESH_TOKEN ex_environ]
   \<and> json_body ex_token_response = Some (JObj [(''access_token'', JStr ''X'')])
   \<and> snd (get_access_token ex_environ (Response ex_token_response)) = Inr (JStr ''X'')"
proof -
  have a: "list_all truthy_opt
             [CLIENT_ID ex_environ, CLIENT_SECRET ex_environ, REFRESH_TOKEN ex_environ]"
    by (simp add: ex_environ_def truthy_opt_def)
  have b: "200 \<le> status_code ex_token_response \<and> status_code ex_token_response < 300"
    by (simp add: ex_token_response_def json_response_def)
  have c: "json_body ex_token_response = Some (JObj [(''access_token'', JStr ''X'')])"
    by (simp add: ex_token_response_def json_response_def)
  have d: "map_of [(''access_token'', JStr ''X'')] ''access_token'' = Some (JStr ''X'')"
    by simp
  have e: "''X'' \<noteq> []" by simp
  from token_exchange_returns_token [OF a b c d e] a c show ?thesis by simp
qed

text \<open>
  C10. When the input file exists and every line of it is empty once stripped, the
  update script prints that no lead IDs were found and returns: the prompt is never
  shown and no HTTP call is made.
\<close>

theorem no_ids_no_prompt:
  assumes "u_input_file w = FileLines ls" and "\<forall>l \<in> set ls. strip l = []"
  shows "update_main w =
           ([Log INFO [L ''Read '', N 0, L '' Lead IDs from '', L INPUT_FILE],
             Print [L ''No Lead IDs found in '', L INPUT_FILE, L ''. Exiting.''],
             Log WARNING [L ''No Lead IDs found in '', L INPUT_FILE, L ''.'']], Inr ())
         \<and> filter is_input (fst (update_main w)) = []
         \<and> http_calls (fst (update_main w)) = []"
proof -
  from assms(2) have "filter (\<lambda>s. s \<noteq> []) (map strip ls) = []"
    by (induction ls) simp_all
  then have "read_lead_ids_from_file INPUT_FILE (u_input_file w) =
      ([Log INFO [L ''Read '', N 0, L '' Lead IDs from '', L INPUT_FILE]], Inr [])"
    by (simp add: assms(1) read_lead_ids_lines)
  then have "update_main w =
           ([Log INFO [L ''Read '', N 0, L '' Lead IDs from '', L INPUT_FILE],
             Print [L ''No Lead IDs found in '', L INPUT_FILE, L ''. Exiting.''],
             Log WARNING [L ''No Lead IDs found in '', L INPUT_FILE, L ''.'']], Inr ())"
    by (simp add: update_main_def io_defs)
  then show ?thesis by (simp add: http_calls_def)
qed

theorem no_ids_no_prompt_witness:
  "u_input_file (ex_update_world ex_blank_lines ''yes'') = FileLines ex_blank_lines
   \<and> map strip ex_blank_lines = [[], [], [], []]
   \<and> filter is_input (fst (update_main (ex_update_world ex_blank_lines ''yes''))) = []
   \<and> http_calls (fst (update_main (ex_update_world ex_blank_lines ''yes''))) = []
   \<and> snd (update_main (ex_update_world ex_blank_lines ''yes'')) = Inr ()"
proof -
  have a: "u_input_file (ex_update_world ex_blank_lines ''yes'') = FileLines ex_blank_lines"
    by (simp add: ex_update_world_def)
  have m: "map strip ex_blank_lines = [[], [], [], []]"
    by (simp add: ex_blank_lines_def strip_def lstrip_def rstrip_def leading_def whitespace_def
          newline_def)
  then have b: "\<forall>l \<in> set ex_blank_lines. strip l = []"
    by (simp add: ex_blank_lines_def)
  note t = no_ids_no_prompt [OF a b]
  from t have "snd (update_main (ex_update_world ex_blank_lines ''yes'')) = Inr ()"
    by simp
  with t a m show ?thesis by blast
qed

end
